theory Spec2Isabelle
  imports Main "HOL-Library.Word"
begin

section \<open>Shared vocabulary\<close>

text \<open>
  A Go \<^verbatim>\<open>error\<close> value is identified with its message; \<^verbatim>\<open>nil\<close> is \<open>None\<close>
  of \<open>error option\<close>. A call of \<^verbatim>\<open>log.Fatal\<close>/\<^verbatim>\<open>log.Fatalf\<close> ends the process
  (\<open>Exited\<close>), a call of \<^verbatim>\<open>log.Panicf\<close> or a runtime panic unwinds it (\<open>Panicked\<close>).
\<close>

type_synonym error = string

datatype 'a outcome = Returned 'a | Exited | Panicked

subsection \<open>Go library functions used by the commands\<close>

text \<open>\<^verbatim>\<open>strconv.Itoa\<close>: the decimal form of an integer.\<close>

definition digit_char :: "nat \<Rightarrow> char" where
  "digit_char d = (''0123456789'' ! d)"

function digits :: "nat \<Rightarrow> string" where
  "digits n = (if n < 10 then [digit_char n] else digits (n div 10) @ [digit_char (n mod 10)])"
  by pat_completeness auto
termination
proof (relation "measure (\<lambda>n. n)")
  show "wf (measure (\<lambda>n. n))" by simp
next
  fix n :: nat
  assume "\<not> n < 10"
  then have "n div 10 < n" by (intro div_less_dividend) simp_all
  then show "(n div 10, n) \<in> measure (\<lambda>n. n)" by simp
qed

declare digits.simps [simp del]

definition Itoa :: "int \<Rightarrow> string" where
  "Itoa i = (if i < 0 then CHR ''-'' # digits (nat (- i)) else digits (nat i))"

text \<open>\<^verbatim>\<open>strings.Join\<close>.\<close>

fun Join :: "string list \<Rightarrow> string \<Rightarrow> string" where
  "Join [] sep = []"
| "Join [x] sep = x"
| "Join (x # y # ys) sep = x @ sep @ Join (y # ys) sep"

section \<open>Package helm: the bootstrap of the chart backend client\<close>

text \<open>
  \<^verbatim>\<open>time.Duration\<close> counts nanoseconds in an \<^verbatim>\<open>int64\<close>; the budgets below start at
  two minutes and only decrease by five seconds at a time, far from the range's ends, so
  the model uses \<open>int\<close>.
\<close>

type_synonym duration = int

definition Second :: duration where
  "Second = 1000000000"

definition tillerCheckInterval :: duration where
  "tillerCheckInterval = 5 * Second"

definition tunnelCheckInterval :: duration where
  "tunnelCheckInterval = 5 * Second"

definition helmCheckInterval :: duration where
  "helmCheckInterval = 5 * Second"

text \<open>The two \<^verbatim>\<open>int32\<close> fields of a deployment's status that the wait compares.\<close>

record deployment_status =
  Replicas :: "32 word"
  ReadyReplicas :: "32 word"

subsection \<open>\<^verbatim>\<open>waitUntilTillerIsStarted\<close>\<close>

text \<open>
  The cluster is a collaborator: \<open>get i\<close> is what the \<open>i\<close>-th
  \<^verbatim>\<open>Deployments(ns).Get("tiller-deploy")\<close> of the loop returns. The loop is
  \<^verbatim>\<open>for tillerWaitingTime > 0 { d, err := Get(); if err != nil { continue };
  if d.Status.ReadyReplicas == d.Status.Replicas { return nil };
  time.Sleep(interval); tillerWaitingTime -= interval }\<close>
  and may run forever, so the model carries fuel: \<open>None\<close> is "has not returned within
  that many iterations". A result is the returned error, the number of \<^verbatim>\<open>Get\<close> calls made
  and the total time slept.
\<close>

fun waitLoop ::
  "nat \<Rightarrow> (nat \<Rightarrow> error + deployment_status) \<Rightarrow> nat \<Rightarrow> duration \<Rightarrow> duration
     \<Rightarrow> (error option \<times> nat \<times> duration) option" where
  "waitLoop 0 get i slept tillerWaitingTime = None"
| "waitLoop (Suc fuel) get i slept tillerWaitingTime =
     (if tillerWaitingTime > 0 then
        (case get i of
           Inl err \<Rightarrow> waitLoop fuel get (Suc i) slept tillerWaitingTime
         | Inr st \<Rightarrow>
             if ReadyReplicas st = Replicas st then Some (None, Suc i, slept)
             else waitLoop fuel get (Suc i) (slept + tillerCheckInterval)
                    (tillerWaitingTime - tillerCheckInterval))
      else Some (Some ''Tiller didn't start in time'', i, slept))"

definition waitUntilTillerIsStarted ::
  "nat \<Rightarrow> (nat \<Rightarrow> error + deployment_status) \<Rightarrow> (error option \<times> nat \<times> duration) option" where
  "waitUntilTillerIsStarted fuel get = waitLoop fuel get 0 0 (2 * 60 * Second)"

subsection \<open>\<^verbatim>\<open>ensureTiller\<close>\<close>

text \<open>
  Everything the bootstrap asks of the cluster, the file system and the helm libraries is a
  collaborator; \<open>helm_env\<close> fixes the answer of each call (indexed by the attempt for
  the calls made in retry loops). \<^verbatim>\<open>createTillerRBAC\<close> is not among the sources and is
  taken as such a collaborator as well. The spinner calls (\<^verbatim>\<open>log.StartWait\<close>,
  \<^verbatim>\<open>log.StopWait\<close>) and \<^verbatim>\<open>log.Done\<close> are left out.
\<close>

record tunnel =
  Local :: int

type_synonym repo_entry = string

record helm_env =
  config_Tiller_Namespace :: "string option"
  GetClientConfig :: "error option"
  Namespaces_Get :: "error option"
  Namespaces_Create :: "error option"
  Deployments_Get :: "error option"
  Deployments_Get_poll :: "nat \<Rightarrow> error + deployment_status"
  ServiceAccounts_Get :: "error option"
  createTillerRBAC :: "error option"
  helminstaller_Install :: "error option"
  helminstaller_Upgrade :: "error option"
  portforwarder_New :: "nat \<Rightarrow> tunnel option \<times> error option"
  ListReleases :: "nat \<Rightarrow> error option"
  homedir_Dir :: "error + string"
  Stat_repoFile :: "error option"
  WriteToFile :: "error option"
  Stat_stableRepoCache :: "error option"
  LoadRepositoriesFile :: "error + repo_entry list"
  NewChartRepository :: "repo_entry \<Rightarrow> error option"

text \<open>The calls that create, install or connect something, recorded in the order made.\<close>

datatype helm_call =
    GetNamespace | CreateNamespace | GetDeployment | GetServiceAccount | CreateRBAC
  | InstallTiller | UpgradeTiller | OpenTunnel | ListReleasesCall | WriteRepoFile
  | LoadRepos | DownloadIndex repo_entry

definition createTiller :: "helm_env \<Rightarrow> error option \<times> helm_call list" where
  "createTiller env =
     (case ServiceAccounts_Get env of
        Some _ \<Rightarrow>
          (case createTillerRBAC env of
             Some err \<Rightarrow> (Some err, [GetServiceAccount, CreateRBAC])
           | None \<Rightarrow> (helminstaller_Install env, [GetServiceAccount, CreateRBAC, InstallTiller]))
      | None \<Rightarrow> (helminstaller_Install env, [GetServiceAccount, InstallTiller]))"

definition upgradeTiller :: "helm_env \<Rightarrow> error option \<times> helm_call list" where
  "upgradeTiller env = (helminstaller_Upgrade env, [UpgradeTiller])"

definition wait_started ::
  "nat \<Rightarrow> helm_env \<Rightarrow> helm_call list \<Rightarrow> (error option \<times> helm_call list) option" where
  "wait_started fuel env calls =
     (case waitUntilTillerIsStarted fuel (Deployments_Get_poll env) of
        None \<Rightarrow> None
      | Some (err, polls, slept) \<Rightarrow> Some (err, calls @ replicate polls GetDeployment))"

definition ensure_workload ::
  "nat \<Rightarrow> helm_env \<Rightarrow> bool \<Rightarrow> helm_call list \<Rightarrow> (error option \<times> helm_call list) option" where
  "ensure_workload fuel env upgrade calls =
     (case Deployments_Get env of
        Some _ \<Rightarrow>
          (case createTiller env of
             (Some err, cs) \<Rightarrow> Some (Some err, calls @ [GetDeployment] @ cs)
           | (None, cs) \<Rightarrow> wait_started fuel env (calls @ [GetDeployment] @ cs))
      | None \<Rightarrow>
          if upgrade then
            (case upgradeTiller env of
               (Some err, cs) \<Rightarrow> Some (Some err, calls @ [GetDeployment] @ cs)
             | (None, cs) \<Rightarrow> wait_started fuel env (calls @ [GetDeployment] @ cs))
          else wait_started fuel env (calls @ [GetDeployment]))"

definition ensureTiller ::
  "nat \<Rightarrow> helm_env \<Rightarrow> bool \<Rightarrow> (error option \<times> helm_call list) option" where
  "ensureTiller fuel env upgrade =
     (case Namespaces_Get env of
        Some _ \<Rightarrow>
          (case Namespaces_Create env of
             Some err \<Rightarrow> Some (Some err, [GetNamespace, CreateNamespace])
           | None \<Rightarrow> ensure_workload fuel env upgrade [GetNamespace, CreateNamespace])
      | None \<Rightarrow> ensure_workload fuel env upgrade [GetNamespace])"

subsection \<open>\<^verbatim>\<open>NewClient\<close>\<close>

text \<open>
  The tunnel loop: \<^verbatim>\<open>for true { tunnel, err = portforwarder.New(...);
  if err == nil && tunnel != nil { break }; if tunnelWaitTime <= 0 { outerError = err; return };
  tunnelWaitTime -= interval; time.Sleep(interval) }\<close>. The result is the tunnel, or
  \<open>Inl\<close> of what \<^verbatim>\<open>outerError\<close> was set to, with the number of attempts made.
\<close>

function tunnelLoop ::
  "(nat \<Rightarrow> tunnel option \<times> error option) \<Rightarrow> nat \<Rightarrow> duration \<Rightarrow> (error option + tunnel) \<times> nat" where
  "tunnelLoop new i tunnelWaitTime =
     (if snd (new i) = None \<and> fst (new i) \<noteq> None then (Inr (the (fst (new i))), Suc i)
      else if tunnelWaitTime \<le> 0 then (Inl (snd (new i)), Suc i)
      else tunnelLoop new (Suc i) (tunnelWaitTime - tunnelCheckInterval))"
  by pat_completeness auto
termination
proof (relation "measure (\<lambda>(new, i, t). nat t)")
  show "wf (measure (\<lambda>(new, i, t). nat t))" by simp
next
  fix new :: "nat \<Rightarrow> tunnel option \<times> error option" and i :: nat and tunnelWaitTime :: duration
  assume "\<not> tunnelWaitTime \<le> 0"
  then show "((new, Suc i, tunnelWaitTime - tunnelCheckInterval), (new, i, tunnelWaitTime))
               \<in> measure (\<lambda>(new, i, t). nat t)"
    by (simp add: tunnelCheckInterval_def Second_def)
qed

declare tunnelLoop.simps [simp del]

text \<open>
  The liveness loop: \<^verbatim>\<open>for helmWaitTime > 0 { _, tillerError = client.ListReleases(...);
  if tillerError == nil || helmWaitTime < 0 { break }; helmWaitTime -= interval;
  time.Sleep(interval) }\<close>. The result is the final \<^verbatim>\<open>tillerError\<close> and the number of
  calls made.
\<close>

function helmLoop ::
  "(nat \<Rightarrow> error option) \<Rightarrow> nat \<Rightarrow> duration \<Rightarrow> error option \<Rightarrow> error option \<times> nat" where
  "helmLoop list i helmWaitTime tillerError =
     (if helmWaitTime > 0 then
        (if list i = None \<or> helmWaitTime < 0 then (list i, Suc i)
         else helmLoop list (Suc i) (helmWaitTime - helmCheckInterval) (list i))
      else (tillerError, i))"
  by pat_completeness auto
termination
proof (relation "measure (\<lambda>(list, i, t, e). nat t)")
  show "wf (measure (\<lambda>(list, i, t, e). nat t))" by simp
next
  fix list :: "nat \<Rightarrow> error option" and i :: nat and helmWaitTime :: duration
    and tillerError :: "error option"
  assume "0 < helmWaitTime"
  then show "((list, Suc i, helmWaitTime - helmCheckInterval, list i), (list, i, helmWaitTime, tillerError))
               \<in> measure (\<lambda>(list, i, t, e). nat t)"
    by (simp add: helmCheckInterval_def Second_def)
qed

declare helmLoop.simps [simp del]

text \<open>
  \<^verbatim>\<open>updateRepos\<close>: the repositories file is loaded, a chart repository is made of every
  entry (the first failure is returned), and the index downloads run as concurrent
  tasks whose failures are only logged.
\<close>

fun first_error :: "('a \<Rightarrow> error option) \<Rightarrow> 'a list \<Rightarrow> error option" where
  "first_error f [] = None"
| "first_error f (x # xs) = (case f x of Some err \<Rightarrow> Some err | None \<Rightarrow> first_error f xs)"

definition updateRepos :: "helm_env \<Rightarrow> error option \<times> helm_call list" where
  "updateRepos env =
     (case LoadRepositoriesFile env of
        Inl err \<Rightarrow> (Some err, [LoadRepos])
      | Inr allRepos \<Rightarrow>
          (case first_error (NewChartRepository env) allRepos of
             Some err \<Rightarrow> (Some err, [LoadRepos])
           | None \<Rightarrow> (None, LoadRepos # map DownloadIndex allRepos)))"

record ClientWrapper =
  Client_Host :: string
  Settings_Home :: string
  Namespace :: string

text \<open>
  The function literal handed to \<^verbatim>\<open>getOnce.Do\<close>. Its result is the wrapper it assigns to
  the package variable \<^verbatim>\<open>helmClient\<close> (\<open>None\<close>: no assignment), the value it leaves in
  the caller's local \<^verbatim>\<open>outerError\<close>, and the calls it made.
\<close>

definition provision_home ::
  "helm_env \<Rightarrow> string \<Rightarrow> tunnel \<Rightarrow> helm_call list
     \<Rightarrow> ClientWrapper option \<times> error option \<times> helm_call list" where
  "provision_home env tillerNamespace tun calls =
     (case homedir_Dir env of
        Inl err \<Rightarrow> (None, Some err, calls)
      | Inr homeDir \<Rightarrow>
          (let helmHomePath = homeDir @ ''/.devspace/helm'';
               wrapper = \<lparr>Client_Host = ''127.0.0.1:'' @ Itoa (Local tun),
                          Settings_Home = helmHomePath,
                          Namespace = tillerNamespace\<rparr>;
               written = (case Stat_repoFile env of Some _ \<Rightarrow> [WriteRepoFile] | None \<Rightarrow> [])
           in if Stat_repoFile env \<noteq> None \<and> WriteToFile env \<noteq> None
              then (None, WriteToFile env, calls @ written)
              else if Stat_stableRepoCache env \<noteq> None then
                (case updateRepos env of
                   (Some err, cs) \<Rightarrow> (None, Some err, calls @ written @ cs)
                 | (None, cs) \<Rightarrow> (Some wrapper, None, calls @ written @ cs))
              else (Some wrapper, None, calls @ written)))"

definition connect ::
  "helm_env \<Rightarrow> string \<Rightarrow> helm_call list \<Rightarrow> ClientWrapper option \<times> error option \<times> helm_call list" where
  "connect env tillerNamespace calls =
     (case tunnelLoop (portforwarder_New env) 0 (2 * 60 * Second) of
        (Inl outerError, attempts) \<Rightarrow> (None, outerError, calls @ replicate attempts OpenTunnel)
      | (Inr tun, attempts) \<Rightarrow>
          (case helmLoop (ListReleases env) 0 (2 * 60 * Second) None of
             (Some tillerError, n) \<Rightarrow>
               (None, Some tillerError,
                calls @ replicate attempts OpenTunnel @ replicate n ListReleasesCall)
           | (None, n) \<Rightarrow>
               provision_home env tillerNamespace tun
                 (calls @ replicate attempts OpenTunnel @ replicate n ListReleasesCall)))"

definition once_body ::
  "nat \<Rightarrow> helm_env \<Rightarrow> bool \<Rightarrow> (ClientWrapper option \<times> error option \<times> helm_call list) option" where
  "once_body fuel env upgrade =
     (case config_Tiller_Namespace env of
        None \<Rightarrow> Some (None, Some ''No tiller namespace specified'', [])
      | Some tillerNamespace \<Rightarrow>
          (case GetClientConfig env of
             Some err \<Rightarrow> Some (None, Some err, [])
           | None \<Rightarrow>
               (case ensureTiller fuel env upgrade of
                  None \<Rightarrow> None
                | Some (Some err, calls) \<Rightarrow> Some (None, Some err, calls)
                | Some (None, calls) \<Rightarrow> Some (connect env tillerNamespace calls))))"

text \<open>
  The package variables \<^verbatim>\<open>helmClient\<close> and \<^verbatim>\<open>getOnce\<close> (a \<^verbatim>\<open>sync.Once\<close>, which
  runs the function of its first \<^verbatim>\<open>Do\<close> and of no later one). \<^verbatim>\<open>NewClient\<close> declares
  \<^verbatim>\<open>var outerError error\<close> afresh in every call, hands the function literal to
  \<^verbatim>\<open>getOnce.Do\<close> and returns \<^verbatim>\<open>helmClient, outerError\<close>. A result is the returned pair,
  the package variables afterwards and the calls made.
\<close>

record helm_globals =
  helmClient :: "ClientWrapper option"
  getOnce_done :: bool

definition NewClient ::
  "nat \<Rightarrow> helm_env \<Rightarrow> bool \<Rightarrow> helm_globals
     \<Rightarrow> ((ClientWrapper option \<times> error option) \<times> helm_globals \<times> helm_call list) option" where
  "NewClient fuel env upgrade g =
     (if getOnce_done g then Some ((helmClient g, None), g, [])
      else
        (case once_body fuel env upgrade of
           None \<Rightarrow> None
         | Some (assigned, outerError, calls) \<Rightarrow>
             (let g' = g\<lparr>getOnce_done := True,
                         helmClient := (case assigned of Some wrapper \<Rightarrow> Some wrapper
                                        | None \<Rightarrow> helmClient g)\<rparr>
              in Some ((helmClient g', outerError), g', calls))))"

text \<open>A process start (nothing initialised) and a cluster configuration with no tiller section.\<close>

definition initial_globals :: helm_globals where
  "initial_globals = \<lparr>helmClient = None, getOnce_done = False\<rparr>"

definition no_tiller_env :: helm_env where
  "no_tiller_env =
     \<lparr>config_Tiller_Namespace = None, GetClientConfig = None, Namespaces_Get = None,
      Namespaces_Create = None, Deployments_Get = None,
      Deployments_Get_poll = (\<lambda>_. Inr \<lparr>Replicas = 1, ReadyReplicas = 1\<rparr>),
      ServiceAccounts_Get = None, createTillerRBAC = None, helminstaller_Install = None,
      helminstaller_Upgrade = None, portforwarder_New = (\<lambda>_. (Some \<lparr>Local = 44134\<rparr>, None)),
      ListReleases = (\<lambda>_. None), homedir_Dir = Inr ''/root'', Stat_repoFile = None,
      WriteToFile = None, Stat_stableRepoCache = None, LoadRepositoriesFile = Inr [],
      NewChartRepository = (\<lambda>_. None)\<rparr>"

section \<open>Package cmd: the \<^verbatim>\<open>up\<close> command\<close>

subsection \<open>Cluster objects, declarations and sessions\<close>

text \<open>
  Of a pod the command reads its name, its namespace and the containers of its spec; of a
  container, its name. The declarations are the \<^verbatim>\<open>v1\<close> configuration structs: a field
  the code tests against \<^verbatim>\<open>nil\<close> is an \<open>option\<close>, a field it dereferences untested is
  the value itself (the configuration provider hands the command loaded values). A Go map
  is the list of its entries in the order the \<^verbatim>\<open>range\<close> visits them.
\<close>

record Container =
  Container_Name :: string

record Pod =
  Pod_Name :: string
  Pod_Namespace :: string
  Spec_Containers :: "Container list"

type_synonym selector_map = "(string \<times> string) list"

record SyncConfig =
  sync_Namespace :: "string option"
  sync_LabelSelector :: selector_map
  sync_ContainerName :: "string option"
  sync_LocalSubPath :: string
  sync_ContainerPath :: string
  sync_ExcludePaths :: "string list option"
  sync_DownloadExcludePaths :: "string list option"
  sync_UploadExcludePaths :: "string list option"

record PortMapping =
  LocalPort :: int
  RemotePort :: int

record PortForwardingConfig =
  pf_Namespace :: "string option"
  pf_ResourceType :: "string option"
  pf_LabelSelector :: selector_map
  pf_PortMappings :: "PortMapping list"

text \<open>\<^verbatim>\<open>synctool.SyncConfig\<close>, the session that \<^verbatim>\<open>startSync\<close> builds and starts.\<close>

record SyncSession =
  Session_Pod :: Pod
  Session_Container :: Container
  WatchPath :: string
  DestPath :: string
  Verbose :: bool
  ExcludePaths :: "string list"
  DownloadExcludePaths :: "string list"
  UploadExcludePaths :: "string list"

record RegistryConfig =
  Registry_URL :: "string option"

type_synonym ImageConfig = string

text \<open>
  \<^verbatim>\<open>generated.Config\<close> is declared outside the sources; the command reads and writes its
  \<^verbatim>\<open>HelmChartHash\<close> and hands the rest (\<open>Generated_Rest\<close>) to the image builder.
\<close>

record generated_Config =
  HelmChartHash :: string
  Generated_Rest :: "string list"

type_synonym generated_yaml = "generated_Config option"

text \<open>The chart's \<^verbatim>\<open>values.yaml\<close>, as far as \<^verbatim>\<open>deployChart\<close> looks into it.\<close>

datatype yaml_field = Absent | Sequence "string list" | NotASequence

record chart_values =
  values_pullSecrets :: yaml_field

record container_values =
  values_image :: string
  values_command :: "string list option"
  values_args :: "string list option"

record overwrite_values =
  overwrite_containers :: "(string \<times> container_values) list"
  overwrite_pullSecrets :: "string list"

subsection \<open>What a run leaves behind\<close>

datatype level = InfoLevel | WarnLevel | ErrorLevel | DoneLevel | FatalLevel | PanicLevel

text \<open>
  A log entry keeps the level and the message as written in the source (the format
  string, or the error for \<^verbatim>\<open>log.Fatal(err)\<close>). The other events are the calls into the
  collaborators that change something outside the process.
\<close>

datatype event =
    Log level string
  | Help
  | CallInstallChartByPath string string string overwrite_values
  | CallWaitForReleasePodToGetReady string string int
  | CallGeneratedSaveConfig generated_Config
  | CallSaveConfig
  | CallSyncStart SyncSession
  | CallSyncStop SyncSession
  | CallForwardPorts Pod "string list"
  | CallEnterTerminal "Pod option" string

record UpCmdFlags =
  flag_build :: bool
  flag_sync :: bool
  flag_deploy :: bool
  flag_portforwarding :: bool
  flag_noSleep :: bool
  flag_verboseSync :: bool
  flag_container :: string

record up_config =
  Release_Name :: string
  Release_Namespace :: string
  Images :: "(string \<times> ImageConfig) list"
  Registries :: "(string \<times> RegistryConfig) list"
  DevSpace_Sync :: "SyncConfig list"
  DevSpace_PortForwarding :: "PortForwardingConfig list"

text \<open>
  The collaborators of the command, none of them among the sources: the generated-state
  store (\<^verbatim>\<open>generated.LoadConfig\<close> reads the file, \<^verbatim>\<open>generated.SaveConfig\<close> is handed the
  config and the file and answers with its error and the file it leaves), the image
  builder (\<^verbatim>\<open>image.Build\<close> gets the pointer to the loaded generated config and may change
  what it points to, so it answers with the config it leaves besides its own result), the
  directory hash, the release pod lookup, the chart backend, the pod lookup by selector,
  the sync engine and the port-forward engine (\<open>forwarding_ready pod ports\<close>: the
  readiness signal arrives before the five-second timer fires).
\<close>

record up_env =
  generated_LoadConfig :: "generated_yaml \<Rightarrow> error + generated_Config"
  generated_SaveConfig :: "generated_Config \<Rightarrow> generated_yaml \<Rightarrow> error option \<times> generated_yaml"
  image_Build :: "generated_Config \<Rightarrow> string \<Rightarrow> ImageConfig \<Rightarrow> bool \<Rightarrow> error + bool \<times> generated_Config"
  hash_Directory :: "string \<Rightarrow> error + string"
  getRunningDevSpacePod :: "Pod option \<times> error option"
  ReadYamlFromFile :: "string \<Rightarrow> error + chart_values"
  GetImageURL :: "generated_Config \<Rightarrow> ImageConfig \<Rightarrow> bool \<Rightarrow> string"
  GetRegistryAuthSecretName :: "string \<Rightarrow> string"
  InstallChartByPath :: "string \<Rightarrow> string \<Rightarrow> string \<Rightarrow> overwrite_values \<Rightarrow> error + int"
  WaitForReleasePodToGetReady :: "string \<Rightarrow> string \<Rightarrow> int \<Rightarrow> Pod option \<times> error option"
  filepath_Abs :: "string \<Rightarrow> error + string"
  GetFirstRunningPod :: "string \<Rightarrow> string \<Rightarrow> Pod option \<times> error option"
  SyncConfig_Start :: "SyncSession \<Rightarrow> error option"
  forwarding_ready :: "Pod \<Rightarrow> string list \<Rightarrow> bool"

text \<open>
  The state a run threads: the command's \<^verbatim>\<open>pod\<close> field, the generated config on disk and
  the events so far.
\<close>

record up_state =
  cmd_pod :: "Pod option"
  generated_file :: generated_yaml
  events :: "event list"

definition emit :: "event list \<Rightarrow> up_state \<Rightarrow> up_state" where
  "emit es s = s\<lparr>events := events s @ es\<rparr>"

definition fatal :: "string \<Rightarrow> up_state \<Rightarrow> 'a outcome \<times> up_state" where
  "fatal msg s = (Exited, emit [Log FatalLevel msg] s)"

definition panic :: "string \<Rightarrow> up_state \<Rightarrow> 'a outcome \<times> up_state" where
  "panic msg s = (Panicked, emit [Log PanicLevel msg] s)"

text \<open>The events a run added: those of the final state after the ones it started with.\<close>

definition new_events :: "up_state \<Rightarrow> up_state \<Rightarrow> event list" where
  "new_events s s' = drop (length (events s)) (events s')"

subsection \<open>\<^verbatim>\<open>buildImages\<close>, \<^verbatim>\<open>deployChart\<close>, \<^verbatim>\<open>buildAndDeploy\<close>\<close>

fun buildImages_loop ::
  "up_env \<Rightarrow> UpCmdFlags \<Rightarrow> (string \<times> ImageConfig) list \<Rightarrow> generated_Config \<Rightarrow> bool \<Rightarrow> up_state
     \<Rightarrow> (bool \<times> generated_Config) outcome \<times> up_state" where
  "buildImages_loop env flags [] generatedConfig re s = (Returned (re, generatedConfig), s)"
| "buildImages_loop env flags ((imageName, imageConf) # rest) generatedConfig re s =
     (case image_Build env generatedConfig imageName imageConf (flag_build flags) of
        Inl err \<Rightarrow> fatal err s
      | Inr (shouldRebuild, generatedConfig') \<Rightarrow>
          buildImages_loop env flags rest generatedConfig' (if shouldRebuild then True else re) s)"

definition buildImages ::
  "up_config \<Rightarrow> up_env \<Rightarrow> UpCmdFlags \<Rightarrow> generated_Config \<Rightarrow> up_state
     \<Rightarrow> (bool \<times> generated_Config) outcome \<times> up_state" where
  "buildImages config env flags generatedConfig s =
     buildImages_loop env flags (Images config) generatedConfig False s"

definition container_entry ::
  "up_env \<Rightarrow> UpCmdFlags \<Rightarrow> generated_Config \<Rightarrow> string \<times> ImageConfig \<Rightarrow> string \<times> container_values" where
  "container_entry env flags generatedConfig entry =
     (fst entry,
      \<lparr>values_image = GetImageURL env generatedConfig (snd entry) True,
       values_command = (if flag_noSleep flags then Some [] else None),
       values_args = (if flag_noSleep flags then Some [] else None)\<rparr>)"

fun registry_secrets :: "up_env \<Rightarrow> (string \<times> RegistryConfig) list \<Rightarrow> string list" where
  "registry_secrets env [] = []"
| "registry_secrets env ((name, registryConf) # rest) =
     (case Registry_URL registryConf of
        Some url \<Rightarrow> GetRegistryAuthSecretName env url # registry_secrets env rest
      | None \<Rightarrow> registry_secrets env rest)"

text \<open>The two calls into the chart backend and their answers, for the configured release.\<close>

definition install_call :: "up_config \<Rightarrow> overwrite_values \<Rightarrow> event" where
  "install_call config overwriteValues =
     CallInstallChartByPath (Release_Name config) (Release_Namespace config) ''chart/'' overwriteValues"

definition install_result :: "up_config \<Rightarrow> up_env \<Rightarrow> overwrite_values \<Rightarrow> error + int" where
  "install_result config env overwriteValues =
     InstallChartByPath env (Release_Name config) (Release_Namespace config) ''chart/'' overwriteValues"

definition wait_call :: "up_config \<Rightarrow> int \<Rightarrow> event" where
  "wait_call config releaseRevision =
     CallWaitForReleasePodToGetReady (Release_Name config) (Release_Namespace config) releaseRevision"

definition wait_result :: "up_config \<Rightarrow> up_env \<Rightarrow> int \<Rightarrow> Pod option \<times> error option" where
  "wait_result config env releaseRevision =
     WaitForReleasePodToGetReady env (Release_Name config) (Release_Namespace config) releaseRevision"

definition install_and_wait ::
  "up_config \<Rightarrow> up_env \<Rightarrow> overwrite_values \<Rightarrow> up_state \<Rightarrow> unit outcome \<times> up_state" where
  "install_and_wait config env overwriteValues s =
     (let s1 = emit [install_call config overwriteValues] s
      in case install_result config env overwriteValues of
           Inl err \<Rightarrow> fatal ''Unable to deploy helm chart: %s'' s1
         | Inr releaseRevision \<Rightarrow>
             (let s2 = emit [Log DoneLevel ''Deployed helm chart (Release revision: %d)'',
                             wait_call config releaseRevision] s1;
                  waited = wait_result config env releaseRevision;
                  s3 = s2\<lparr>cmd_pod := fst waited\<rparr>
              in case snd waited of
                   Some err \<Rightarrow> fatal err s3
                 | None \<Rightarrow> (Returned (), s3)))"

definition deployChart ::
  "up_config \<Rightarrow> up_env \<Rightarrow> UpCmdFlags \<Rightarrow> generated_Config \<Rightarrow> up_state \<Rightarrow> unit outcome \<times> up_state" where
  "deployChart config env flags generatedConfig s =
     (case ReadYamlFromFile env ''chart/values.yaml'' of
        Inl err \<Rightarrow> fatal ''Couldn't deploy chart, error reading from chart values %s: %v'' s
      | Inr vals \<Rightarrow>
          (let containerValues = map (container_entry env flags generatedConfig) (Images config)
           in case values_pullSecrets vals of
                NotASequence \<Rightarrow> (Panicked, s)
              | Absent \<Rightarrow>
                  install_and_wait config env
                    \<lparr>overwrite_containers = containerValues,
                     overwrite_pullSecrets = registry_secrets env (Registries config)\<rparr> s
              | Sequence existingPullSecrets \<Rightarrow>
                  install_and_wait config env
                    \<lparr>overwrite_containers = containerValues,
                     overwrite_pullSecrets = existingPullSecrets @ registry_secrets env (Registries config)\<rparr> s))"

definition save_generated :: "up_env \<Rightarrow> generated_Config \<Rightarrow> up_state \<Rightarrow> unit outcome \<times> up_state" where
  "save_generated env generatedConfig s =
     (let saved = generated_SaveConfig env generatedConfig (generated_file s);
          s1 = emit [CallGeneratedSaveConfig generatedConfig] (s\<lparr>generated_file := snd saved\<rparr>)
      in case fst saved of
           Some err \<Rightarrow> fatal ''Error saving config: %v'' s1
         | None \<Rightarrow> (Returned (), s1))"

definition deploy_decision ::
  "up_config \<Rightarrow> up_env \<Rightarrow> UpCmdFlags \<Rightarrow> bool \<Rightarrow> generated_Config \<Rightarrow> string \<Rightarrow> up_state
     \<Rightarrow> unit outcome \<times> up_state" where
  "deploy_decision config env flags mustRedeploy generatedConfig hash s =
     (if snd (getRunningDevSpacePod env) \<noteq> None \<or> mustRedeploy \<or> flag_deploy flags
         \<or> HelmChartHash generatedConfig \<noteq> hash
      then
        (case deployChart config env flags generatedConfig s of
           (Returned u, s1) \<Rightarrow> save_generated env (generatedConfig\<lparr>HelmChartHash := hash\<rparr>) s1
         | (Exited, s1) \<Rightarrow> (Exited, s1)
         | (Panicked, s1) \<Rightarrow> (Panicked, s1))
      else (Returned (), s\<lparr>cmd_pod := fst (getRunningDevSpacePod env)\<rparr>))"

definition buildAndDeploy ::
  "up_config \<Rightarrow> up_env \<Rightarrow> UpCmdFlags \<Rightarrow> up_state \<Rightarrow> unit outcome \<times> up_state" where
  "buildAndDeploy config env flags s =
     (case generated_LoadConfig env (generated_file s) of
        Inl err \<Rightarrow> fatal ''Error loading generated.yaml: %v'' s
      | Inr generatedConfig \<Rightarrow>
          (case buildImages config env flags generatedConfig s of
             (Exited, s1) \<Rightarrow> (Exited, s1)
           | (Panicked, s1) \<Rightarrow> (Panicked, s1)
           | (Returned (mustRedeploy, generatedConfig'), s1) \<Rightarrow>
               (case hash_Directory env ''chart'' of
                  Inl err \<Rightarrow> fatal ''Error hashing chart directory: %v'' s1
                | Inr hash \<Rightarrow>
                    deploy_decision config env flags mustRedeploy generatedConfig' hash s1)))"

subsection \<open>\<^verbatim>\<open>startSync\<close>\<close>

definition selector_labels :: "selector_map \<Rightarrow> string list" where
  "selector_labels m = map (\<lambda>entry. fst entry @ ''='' @ snd entry) m"

definition target_namespace :: "up_config \<Rightarrow> string option \<Rightarrow> string" where
  "target_namespace config override =
     (case override of
        Some ns \<Rightarrow> if ns \<noteq> [] then ns else Release_Namespace config
      | None \<Rightarrow> Release_Namespace config)"

text \<open>
  \<^verbatim>\<open>for _, c := range pod.Spec.Containers { if c.Name == name { container = &c; found = true;
  break } }\<close>: the first container of that name, if any.
\<close>

fun find_container :: "string \<Rightarrow> Container list \<Rightarrow> Container option" where
  "find_container name [] = None"
| "find_container name (c # cs) =
     (if Container_Name c = name then Some c else find_container name cs)"

definition or_empty :: "string list option \<Rightarrow> string list" where
  "or_empty xs = (case xs of Some ys \<Rightarrow> ys | None \<Rightarrow> [])"

definition new_SyncConfig :: "UpCmdFlags \<Rightarrow> SyncConfig \<Rightarrow> string \<Rightarrow> Pod \<Rightarrow> Container \<Rightarrow> SyncSession" where
  "new_SyncConfig flags syncPath absLocalPath pod container =
     \<lparr>Session_Pod = pod, Session_Container = container, WatchPath = absLocalPath,
      DestPath = sync_ContainerPath syncPath, Verbose = flag_verboseSync flags,
      ExcludePaths = or_empty (sync_ExcludePaths syncPath),
      DownloadExcludePaths = or_empty (sync_DownloadExcludePaths syncPath),
      UploadExcludePaths = or_empty (sync_UploadExcludePaths syncPath)\<rparr>"

definition start_session ::
  "up_env \<Rightarrow> UpCmdFlags \<Rightarrow> SyncConfig \<Rightarrow> string \<Rightarrow> Pod \<Rightarrow> Container \<Rightarrow> up_state
     \<Rightarrow> SyncSession option outcome \<times> up_state" where
  "start_session env flags syncPath absLocalPath pod container s =
     (let syncConfig = new_SyncConfig flags syncPath absLocalPath pod container;
          s1 = emit [CallSyncStart syncConfig] s
      in case SyncConfig_Start env syncConfig of
           Some err \<Rightarrow> fatal ''Sync error: %s'' s1
         | None \<Rightarrow>
             (Returned (Some syncConfig),
              emit [Log DoneLevel ''Sync started on %s <-> %s (Pod: %s/%s)''] s1))"

text \<open>
  The body of the loop for a pod that the lookup returned. \<^verbatim>\<open>&pod.Spec.Containers[0]\<close>
  panics on an empty slice; the model keeps that branch, behind the length test the
  source puts before it.
\<close>

definition sync_on_pod ::
  "up_env \<Rightarrow> UpCmdFlags \<Rightarrow> SyncConfig \<Rightarrow> string \<Rightarrow> Pod \<Rightarrow> up_state
     \<Rightarrow> SyncSession option outcome \<times> up_state" where
  "sync_on_pod env flags syncPath absLocalPath pod s =
     (if length (Spec_Containers pod) = 0 then
        (Returned None,
         emit [Log WarnLevel ''Cannot start sync on pod, because selected pod %s/%s has no containers''] s)
      else
        (case Spec_Containers pod of
           [] \<Rightarrow> (Panicked, s)
         | first # others \<Rightarrow>
             (case sync_ContainerName syncPath of
                None \<Rightarrow> start_session env flags syncPath absLocalPath pod first s
              | Some name \<Rightarrow>
                  if name \<noteq> [] then
                    (case find_container name (Spec_Containers pod) of
                       None \<Rightarrow>
                         (Returned None,
                          emit [Log WarnLevel ''Couldn't start sync, because container %s wasn't found in pod %s/%s''] s)
                     | Some c \<Rightarrow> start_session env flags syncPath absLocalPath pod c s)
                  else start_session env flags syncPath absLocalPath pod first s)))"

text \<open>
  One iteration: \<open>Returned None\<close> is an iteration that appends nothing (it fell through or
  hit \<^verbatim>\<open>continue\<close>), \<open>Returned (Some c)\<close> one that appends the started session.
\<close>

definition startSync_step ::
  "up_config \<Rightarrow> up_env \<Rightarrow> UpCmdFlags \<Rightarrow> SyncConfig \<Rightarrow> up_state
     \<Rightarrow> SyncSession option outcome \<times> up_state" where
  "startSync_step config env flags syncPath s =
     (case filepath_Abs env (sync_LocalSubPath syncPath) of
        Inl err \<Rightarrow> panic ''Unable to resolve localSubPath %s: %s'' s
      | Inr absLocalPath \<Rightarrow>
          (case GetFirstRunningPod env (Join (selector_labels (sync_LabelSelector syncPath)) '', '')
                  (target_namespace config (sync_Namespace syncPath)) of
             (found, Some err) \<Rightarrow> panic ''Unable to list devspace pods: %s'' s
           | (None, None) \<Rightarrow> (Returned None, s)
           | (Some pod, None) \<Rightarrow> sync_on_pod env flags syncPath absLocalPath pod s))"

fun startSync_loop ::
  "up_config \<Rightarrow> up_env \<Rightarrow> UpCmdFlags \<Rightarrow> SyncConfig list \<Rightarrow> SyncSession list \<Rightarrow> up_state
     \<Rightarrow> SyncSession list outcome \<times> up_state" where
  "startSync_loop config env flags [] syncConfigs s = (Returned syncConfigs, s)"
| "startSync_loop config env flags (syncPath # rest) syncConfigs s =
     (case startSync_step config env flags syncPath s of
        (Returned None, s1) \<Rightarrow> startSync_loop config env flags rest syncConfigs s1
      | (Returned (Some syncConfig), s1) \<Rightarrow>
          startSync_loop config env flags rest (syncConfigs @ [syncConfig]) s1
      | (Exited, s1) \<Rightarrow> (Exited, s1)
      | (Panicked, s1) \<Rightarrow> (Panicked, s1))"

definition startSync ::
  "up_config \<Rightarrow> up_env \<Rightarrow> UpCmdFlags \<Rightarrow> up_state \<Rightarrow> SyncSession list outcome \<times> up_state" where
  "startSync config env flags s = startSync_loop config env flags (DevSpace_Sync config) [] s"

subsection \<open>\<^verbatim>\<open>startPortForwarding\<close>\<close>

definition port_pair :: "PortMapping \<Rightarrow> string" where
  "port_pair v = Itoa (LocalPort v) @ '':'' @ Itoa (RemotePort v)"

text \<open>
  \<^verbatim>\<open>go kubectl.ForwardPorts(...)\<close> followed by the \<^verbatim>\<open>select\<close> between the readiness
  channel and \<^verbatim>\<open>time.After(5 * time.Second)\<close>.
\<close>

definition forward_to_pod :: "up_env \<Rightarrow> PortForwardingConfig \<Rightarrow> Pod \<Rightarrow> up_state \<Rightarrow> up_state" where
  "forward_to_pod env portForwarding pod s =
     (let ports = map port_pair (pf_PortMappings portForwarding);
          s1 = emit [CallForwardPorts pod ports] s
      in if forwarding_ready env pod ports
         then emit [Log DoneLevel ''Port forwarding started on %s''] s1
         else emit [Log ErrorLevel ''Timeout waiting for port forwarding to start''] s1)"

definition startPortForwarding_step ::
  "up_config \<Rightarrow> up_env \<Rightarrow> PortForwardingConfig \<Rightarrow> up_state \<Rightarrow> up_state" where
  "startPortForwarding_step config env portForwarding s =
     (if pf_ResourceType portForwarding = None \<or> pf_ResourceType portForwarding = Some ''pod'' then
        (if length (pf_LabelSelector portForwarding) > 0 then
           (case GetFirstRunningPod env (Join (selector_labels (pf_LabelSelector portForwarding)) '', '')
                   (target_namespace config (pf_Namespace portForwarding)) of
              (found, Some err) \<Rightarrow> emit [Log ErrorLevel ''Unable to list devspace pods: %s''] s
            | (None, None) \<Rightarrow> s
            | (Some pod, None) \<Rightarrow> forward_to_pod env portForwarding pod s)
         else s)
      else emit [Log WarnLevel ''Currently only pod resource type is supported for portforwarding''] s)"

fun startPortForwarding_loop ::
  "up_config \<Rightarrow> up_env \<Rightarrow> PortForwardingConfig list \<Rightarrow> up_state \<Rightarrow> up_state" where
  "startPortForwarding_loop config env [] s = s"
| "startPortForwarding_loop config env (portForwarding # rest) s =
     startPortForwarding_loop config env rest (startPortForwarding_step config env portForwarding s)"

definition startPortForwarding :: "up_config \<Rightarrow> up_env \<Rightarrow> up_state \<Rightarrow> up_state" where
  "startPortForwarding config env s =
     startPortForwarding_loop config env (DevSpace_PortForwarding config) s"

subsection \<open>The end of \<^verbatim>\<open>Run\<close>: sessions, then the terminal\<close>

text \<open>
  What \<^verbatim>\<open>Run\<close> does after \<^verbatim>\<open>buildAndDeploy\<close>: port forwarding and sync as the flags say,
  then \<^verbatim>\<open>enterTerminal\<close>, then the deferred \<^verbatim>\<open>Stop\<close> of every sync session.
\<close>

definition Run_sessions ::
  "up_config \<Rightarrow> up_env \<Rightarrow> UpCmdFlags \<Rightarrow> up_state \<Rightarrow> unit outcome \<times> up_state" where
  "Run_sessions config env flags s =
     (let s1 = (if flag_portforwarding flags then startPortForwarding config env s else s)
      in if flag_sync flags then
           (case startSync config env flags s1 of
              (Returned syncConfigs, s2) \<Rightarrow>
                (Returned (),
                 emit (CallEnterTerminal (cmd_pod s2) (flag_container flags) # map CallSyncStop syncConfigs) s2)
            | (Exited, s2) \<Rightarrow> (Exited, s2)
            | (Panicked, s2) \<Rightarrow> (Panicked, s2))
         else (Returned (), emit [CallEnterTerminal (cmd_pod s1) (flag_container flags)] s1))"

section \<open>Package cmd: the \<^verbatim>\<open>remove\<close> command\<close>

subsection \<open>\<^verbatim>\<open>strings.Split\<close> and \<^verbatim>\<open>strings.TrimSpace\<close>\<close>

text \<open>
  \<^verbatim>\<open>strings.Split(s, ",")\<close>: the pieces between the separators; one piece more than
  there are separators, so the empty string gives one empty piece.
\<close>

fun Split :: "string \<Rightarrow> char \<Rightarrow> string list" where
  "Split [] sep = [[]]"
| "Split (c # cs) sep =
     (if c = sep then [] # Split cs sep
      else (case Split cs sep of
              piece # pieces \<Rightarrow> (c # piece) # pieces
            | [] \<Rightarrow> [[c]]))"

text \<open>
  \<^verbatim>\<open>strings.TrimSpace\<close> removes the leading and trailing white space that
  \<^verbatim>\<open>unicode.IsSpace\<close> knows. A Go string is a byte sequence read as UTF-8, so each white
  space rune is listed by its encoding: tab, line feed, vertical tab, form feed, carriage
  return, space, U+0085, U+00A0, U+1680, U+2000 to U+200A, U+2028, U+2029, U+202F, U+205F
  and U+3000.
\<close>

definition space_runes :: "string list" where
  "space_runes =
     [[CHR 0x09], [CHR 0x0A], [CHR 0x0B], [CHR 0x0C], [CHR 0x0D], [CHR 0x20],
      [CHR 0xC2, CHR 0x85], [CHR 0xC2, CHR 0xA0], [CHR 0xE1, CHR 0x9A, CHR 0x80],
      [CHR 0xE2, CHR 0x80, CHR 0x80], [CHR 0xE2, CHR 0x80, CHR 0x81],
      [CHR 0xE2, CHR 0x80, CHR 0x82], [CHR 0xE2, CHR 0x80, CHR 0x83],
      [CHR 0xE2, CHR 0x80, CHR 0x84], [CHR 0xE2, CHR 0x80, CHR 0x85],
      [CHR 0xE2, CHR 0x80, CHR 0x86], [CHR 0xE2, CHR 0x80, CHR 0x87],
      [CHR 0xE2, CHR 0x80, CHR 0x88], [CHR 0xE2, CHR 0x80, CHR 0x89],
      [CHR 0xE2, CHR 0x80, CHR 0x8A], [CHR 0xE2, CHR 0x80, CHR 0xA8],
      [CHR 0xE2, CHR 0x80, CHR 0xA9], [CHR 0xE2, CHR 0x80, CHR 0xAF],
      [CHR 0xE2, CHR 0x81, CHR 0x9F], [CHR 0xE3, CHR 0x80, CHR 0x80]]"

text \<open>The width in bytes of the white space rune that \<open>s\<close> starts with; 0 if it starts with none.\<close>

fun leading_width :: "string list \<Rightarrow> string \<Rightarrow> nat" where
  "leading_width [] s = 0"
| "leading_width (r # rs) s =
     (if r \<noteq> [] \<and> take (length r) s = r then length r else leading_width rs s)"

lemma leading_width_drop:
  "0 < leading_width rs s \<Longrightarrow> length (drop (leading_width rs s) s) < length s"
proof (induction rs)
  case Nil
  then show ?case by simp
next
  case (Cons r rs)
  show ?case
  proof (cases "r \<noteq> [] \<and> take (length r) s = r")
    case True
    then have "s \<noteq> []" by auto
    with True show ?thesis by simp
  next
    case False
    with Cons show ?thesis by auto
  qed
qed

function trim_leading :: "string list \<Rightarrow> string \<Rightarrow> string" where
  "trim_leading rs s =
     (if 0 < leading_width rs s then trim_leading rs (drop (leading_width rs s) s) else s)"
  by pat_completeness auto
termination
proof (relation "measure (\<lambda>(rs, s). length s)")
  show "wf (measure (\<lambda>(rs, s). length s))" by simp
next
  fix rs :: "string list" and s :: string
  assume "0 < leading_width rs s"
  then have "length (drop (leading_width rs s) s) < length s"
    by (rule leading_width_drop)
  then show "((rs, drop (leading_width rs s) s), (rs, s)) \<in> measure (\<lambda>(rs, s). length s)"
    by simp
qed

declare trim_leading.simps [simp del]

text \<open>
  The trailing side is the leading side of the reversed string: the last rune of a string
  is decoded from its nearest rune-start byte, which for each of the encodings above is
  the encoding's own first byte.
\<close>

definition TrimSpace :: "string \<Rightarrow> string" where
  "TrimSpace s = rev (trim_leading (map rev space_runes) (rev (trim_leading space_runes s)))"

subsection \<open>The configuration and the flags\<close>

text \<open>
  \<^verbatim>\<open>config.DevSpace\<close> as \<^verbatim>\<open>remove.go\<close> reads it (both lists are tested against
  \<^verbatim>\<open>nil\<close>), and the command's flag structs.
\<close>

record DevSpaceConfig =
  Ports :: "PortForwardingConfig list option"
  Sync :: "SyncConfig list option"

type_synonym config_yaml = "DevSpaceConfig option"

record removeSyncCmdFlags =
  syncFlags_Selector :: string
  syncFlags_LocalPath :: string
  syncFlags_ContainerPath :: string
  syncFlags_RemoveAll :: bool

record removePortCmdFlags =
  portFlags_Selector :: string
  portFlags_RemoveAll :: bool

text \<open>
  \<^verbatim>\<open>parseSelectors\<close> and \<^verbatim>\<open>isMapEqual\<close> are functions of the package that are not among
  the sources; the commands take them as given. \<^verbatim>\<open>configutil.SaveConfig\<close> writes the
  configuration files from the loaded configuration; the commands see its error only.
\<close>

record remove_env =
  parseSelectors :: "string \<Rightarrow> error + selector_map"
  isMapEqual :: "selector_map \<Rightarrow> selector_map \<Rightarrow> bool"
  configutil_SaveConfig :: "DevSpaceConfig \<Rightarrow> config_yaml \<Rightarrow> error option \<times> config_yaml"

text \<open>The loaded configuration (\<^verbatim>\<open>configutil.GetConfig()\<close>), the file on disk, the events.\<close>

record remove_state =
  loaded_config :: DevSpaceConfig
  config_file :: config_yaml
  remove_events :: "event list"

definition remove_emit :: "event list \<Rightarrow> remove_state \<Rightarrow> remove_state" where
  "remove_emit es s = s\<lparr>remove_events := remove_events s @ es\<rparr>"

definition save_config :: "remove_env \<Rightarrow> remove_state \<Rightarrow> unit outcome \<times> remove_state" where
  "save_config env s =
     (let saved = configutil_SaveConfig env (loaded_config s) (config_file s);
          s1 = remove_emit [CallSaveConfig] (s\<lparr>config_file := snd saved\<rparr>)
      in case fst saved of
           Some err \<Rightarrow> (Exited, remove_emit [Log FatalLevel ''Couldn't save config file: %s''] s1)
         | None \<Rightarrow> (Returned (), s1))"

subsection \<open>\<^verbatim>\<open>RunRemoveSync\<close>\<close>

fun remaining_sync ::
  "remove_env \<Rightarrow> removeSyncCmdFlags \<Rightarrow> selector_map \<Rightarrow> SyncConfig list \<Rightarrow> SyncConfig list" where
  "remaining_sync env flags labelSelectorMap [] = []"
| "remaining_sync env flags labelSelectorMap (v # vs) =
     (if syncFlags_RemoveAll flags
         \<or> syncFlags_LocalPath flags = sync_LocalSubPath v
         \<or> syncFlags_ContainerPath flags = sync_ContainerPath v
         \<or> isMapEqual env labelSelectorMap (sync_LabelSelector v)
      then remaining_sync env flags labelSelectorMap vs
      else v # remaining_sync env flags labelSelectorMap vs)"

definition RunRemoveSync ::
  "remove_env \<Rightarrow> removeSyncCmdFlags \<Rightarrow> string list \<Rightarrow> remove_state \<Rightarrow> unit outcome \<times> remove_state" where
  "RunRemoveSync env flags args s =
     (case parseSelectors env (syncFlags_Selector flags) of
        Inl err \<Rightarrow> (Exited, remove_emit [Log FatalLevel ''Error parsing selectors: %s''] s)
      | Inr labelSelectorMap \<Rightarrow>
          if length labelSelectorMap = 0 \<and> syncFlags_RemoveAll flags = False
             \<and> syncFlags_LocalPath flags = [] \<and> syncFlags_ContainerPath flags = []
          then (Returned (),
                remove_emit [Log ErrorLevel ''You have to specify at least one of the supported flags'', Help] s)
          else
            (case Sync (loaded_config s) of
               None \<Rightarrow> (Returned (), s)
             | Some syncPaths \<Rightarrow>
                 if length syncPaths > 0 then
                   save_config env
                     (s\<lparr>loaded_config := (loaded_config s)\<lparr>Sync := Some (remaining_sync env flags labelSelectorMap syncPaths)\<rparr>\<rparr>)
                 else (Returned (), s)))"

subsection \<open>\<^verbatim>\<open>RunRemovePort\<close>\<close>

fun containsPort :: "string \<Rightarrow> string list \<Rightarrow> bool" where
  "containsPort port [] = False"
| "containsPort port (v # vs) = (if TrimSpace v = port then True else containsPort port vs)"

fun remaining_mappings :: "string list \<Rightarrow> PortMapping list \<Rightarrow> PortMapping list" where
  "remaining_mappings ports [] = []"
| "remaining_mappings ports (pm # pms) =
     (if containsPort (Itoa (LocalPort pm)) ports \<or> containsPort (Itoa (RemotePort pm)) ports
      then remaining_mappings ports pms
      else pm # remaining_mappings ports pms)"

fun remaining_ports ::
  "remove_env \<Rightarrow> removePortCmdFlags \<Rightarrow> selector_map \<Rightarrow> string list \<Rightarrow> PortForwardingConfig list
     \<Rightarrow> PortForwardingConfig list" where
  "remaining_ports env flags labelSelectorMap ports [] = []"
| "remaining_ports env flags labelSelectorMap ports (v # vs) =
     (if portFlags_RemoveAll flags \<or> isMapEqual env labelSelectorMap (pf_LabelSelector v)
      then remaining_ports env flags labelSelectorMap ports vs
      else if length (remaining_mappings ports (pf_PortMappings v)) > 0
      then v\<lparr>pf_PortMappings := remaining_mappings ports (pf_PortMappings v)\<rparr>
             # remaining_ports env flags labelSelectorMap ports vs
      else remaining_ports env flags labelSelectorMap ports vs)"

definition RunRemovePort ::
  "remove_env \<Rightarrow> removePortCmdFlags \<Rightarrow> string list \<Rightarrow> remove_state \<Rightarrow> unit outcome \<times> remove_state" where
  "RunRemovePort env flags args s =
     (case parseSelectors env (portFlags_Selector flags) of
        Inl err \<Rightarrow> (Exited, remove_emit [Log FatalLevel ''Error parsing selectors: %s''] s)
      | Inr labelSelectorMap \<Rightarrow>
          (let argPorts = (case args of [a] \<Rightarrow> a | other \<Rightarrow> [])
           in if length labelSelectorMap = 0 \<and> portFlags_RemoveAll flags = False \<and> argPorts = []
              then (Returned (),
                    remove_emit [Log ErrorLevel ''You have to specify at least one of the supported flags'', Help] s)
              else
                (case Ports (loaded_config s) of
                   None \<Rightarrow> (Returned (), s)
                 | Some portForwards \<Rightarrow>
                     if length portForwards > 0 then
                       save_config env
                         (s\<lparr>loaded_config := (loaded_config s)\<lparr>Ports :=
                               Some (remaining_ports env flags labelSelectorMap (Split argPorts CHR '','')
                                       portForwards)\<rparr>\<rparr>)
                     else (Returned (), s))))"

section \<open>Vocabulary of the properties\<close>

text \<open>
  The events \<^verbatim>\<open>buildAndDeploy\<close> can add, in two groups: those of a run that did not reach
  \<^verbatim>\<open>generated.SaveConfig\<close>, and those of a run that did.
\<close>

definition quiet_shape :: "up_config \<Rightarrow> up_env \<Rightarrow> unit outcome \<Rightarrow> event list \<Rightarrow> bool" where
  "quiet_shape config env r es =
     ((es = [] \<and> r \<noteq> Exited)
      \<or> (\<exists>e. es = [Log FatalLevel e] \<and> r = Exited)
      \<or> (\<exists>vals e. install_result config env vals = Inl e \<and> r = Exited
            \<and> es = [install_call config vals, Log FatalLevel ''Unable to deploy helm chart: %s''])
      \<or> (\<exists>vals revision e. install_result config env vals = Inr revision
            \<and> snd (wait_result config env revision) = Some e \<and> r = Exited
            \<and> es = [install_call config vals, Log DoneLevel ''Deployed helm chart (Release revision: %d)'',
                     wait_call config revision, Log FatalLevel e]))"

definition saved_shape :: "up_config \<Rightarrow> up_env \<Rightarrow> unit outcome \<Rightarrow> event list \<Rightarrow> bool" where
  "saved_shape config env r es =
     (\<exists>vals revision g. install_result config env vals = Inr revision
        \<and> snd (wait_result config env revision) = None
        \<and> (es = [install_call config vals, Log DoneLevel ''Deployed helm chart (Release revision: %d)'',
                  wait_call config revision, CallGeneratedSaveConfig g] \<and> r = Returned ()
            \<or> es = [install_call config vals, Log DoneLevel ''Deployed helm chart (Release revision: %d)'',
                  wait_call config revision, CallGeneratedSaveConfig g,
                  Log FatalLevel ''Error saving config: %v''] \<and> r = Exited))"

section \<open>Example runs\<close>

text \<open>Concrete clusters, configurations and invocations on which the properties are exercised.\<close>

definition never_ready :: "nat \<Rightarrow> error + deployment_status" where
  "never_ready i = Inr \<lparr>Replicas = 1, ReadyReplicas = 0\<rparr>"

definition ready_env :: helm_env where
  "ready_env = no_tiller_env\<lparr>config_Tiller_Namespace := Some ''kube-system''\<rparr>"

definition web_pod :: Pod where
  "web_pod = \<lparr>Pod_Name = ''web-0'', Pod_Namespace = ''default'',
              Spec_Containers = [\<lparr>Container_Name = ''app''\<rparr>, \<lparr>Container_Name = ''sidecar''\<rparr>]\<rparr>"

definition demo_config :: up_config where
  "demo_config =
     \<lparr>Release_Name = ''devspace'', Release_Namespace = ''default'',
      Images = [(''default'', ''node'')],
      Registries = [(''internal'', \<lparr>Registry_URL = Some ''registry.local''\<rparr>)],
      DevSpace_Sync = [], DevSpace_PortForwarding = []\<rparr>"

definition demo_env :: up_env where
  "demo_env =
     \<lparr>generated_LoadConfig =
        (\<lambda>file. case file of Some g \<Rightarrow> Inr g
                 | None \<Rightarrow> Inr \<lparr>HelmChartHash = [], Generated_Rest = []\<rparr>),
      generated_SaveConfig = (\<lambda>g file. (None, Some g)),
      image_Build = (\<lambda>g name conf force. Inr (force, g)),
      hash_Directory = (\<lambda>path. Inr ''abc123''),
      getRunningDevSpacePod = (Some web_pod, None),
      ReadYamlFromFile = (\<lambda>path. Inr \<lparr>values_pullSecrets = Absent\<rparr>),
      GetImageURL = (\<lambda>g conf internal. conf),
      GetRegistryAuthSecretName = (\<lambda>url. ''devspace-registry-auth-'' @ url),
      InstallChartByPath = (\<lambda>name ns path vals. Inr 2),
      WaitForReleasePodToGetReady = (\<lambda>name ns revision. (Some web_pod, None)),
      filepath_Abs = (\<lambda>path. Inr (''/work/'' @ path)),
      GetFirstRunningPod =
        (\<lambda>selector ns. if selector = ''release=devspace'' then (Some web_pod, None) else (None, None)),
      SyncConfig_Start = (\<lambda>session. None),
      forwarding_ready = (\<lambda>pod ports. True)\<rparr>"

definition demo_flags :: UpCmdFlags where
  "demo_flags =
     \<lparr>flag_build = False, flag_sync = True, flag_deploy = False, flag_portforwarding = True,
      flag_noSleep = False, flag_verboseSync = False, flag_container = []\<rparr>"

definition demo_state :: up_state where
  "demo_state =
     \<lparr>cmd_pod = None,
      generated_file = Some \<lparr>HelmChartHash = ''abc123'', Generated_Rest = []\<rparr>,
      events = []\<rparr>"

definition stale_state :: up_state where
  "stale_state =
     \<lparr>cmd_pod = None,
      generated_file = Some \<lparr>HelmChartHash = ''old'', Generated_Rest = []\<rparr>,
      events = []\<rparr>"

definition stuck_env :: up_env where
  "stuck_env = demo_env\<lparr>WaitForReleasePodToGetReady := (\<lambda>name ns revision. (None, Some ''timeout''))\<rparr>"

definition demo_values :: overwrite_values where
  "demo_values =
     \<lparr>overwrite_containers =
        [(''default'', \<lparr>values_image = ''node'', values_command = None, values_args = None\<rparr>)],
      overwrite_pullSecrets = [''devspace-registry-auth-registry.local'']\<rparr>"

definition stuck_final :: up_state where
  "stuck_final =
     \<lparr>cmd_pod = None,
      generated_file = Some \<lparr>HelmChartHash = ''old'', Generated_Rest = []\<rparr>,
      events = [install_call demo_config demo_values,
                Log DoneLevel ''Deployed helm chart (Release revision: %d)'',
                wait_call demo_config 2, Log FatalLevel ''timeout'']\<rparr>"

definition fresh_final :: up_state where
  "fresh_final =
     \<lparr>cmd_pod = Some web_pod,
      generated_file = Some \<lparr>HelmChartHash = ''abc123'', Generated_Rest = []\<rparr>,
      events = [install_call demo_config demo_values,
                Log DoneLevel ''Deployed helm chart (Release revision: %d)'',
                wait_call demo_config 2,
                CallGeneratedSaveConfig \<lparr>HelmChartHash = ''abc123'', Generated_Rest = []\<rparr>]\<rparr>"

definition lost_env :: up_env where
  "lost_env =
     demo_env\<lparr>getRunningDevSpacePod := (None, Some ''no running pod''),
              WaitForReleasePodToGetReady := (\<lambda>name ns revision. (None, Some ''timeout''))\<rparr>"

definition lost_final :: up_state where
  "lost_final =
     \<lparr>cmd_pod = None,
      generated_file = Some \<lparr>HelmChartHash = ''abc123'', Generated_Rest = []\<rparr>,
      events = [install_call demo_config demo_values,
                Log DoneLevel ''Deployed helm chart (Release revision: %d)'',
                wait_call demo_config 2, Log FatalLevel ''timeout'']\<rparr>"

definition next_start :: up_state where
  "next_start = \<lparr>cmd_pod = None, generated_file = generated_file lost_final, events = []\<rparr>"

definition sync_web :: SyncConfig where
  "sync_web =
     \<lparr>sync_Namespace = None, sync_LabelSelector = [(''release'', ''devspace'')],
      sync_ContainerName = None, sync_LocalSubPath = ''src'', sync_ContainerPath = ''/app'',
      sync_ExcludePaths = Some [''node_modules''], sync_DownloadExcludePaths = None,
      sync_UploadExcludePaths = None\<rparr>"

definition sync_db :: SyncConfig where
  "sync_db = sync_web\<lparr>sync_ContainerName := Some ''db''\<rparr>"

definition sync_other :: SyncConfig where
  "sync_other = sync_web\<lparr>sync_LabelSelector := [(''release'', ''other'')]\<rparr>"

definition pf_web :: PortForwardingConfig where
  "pf_web =
     \<lparr>pf_Namespace = None, pf_ResourceType = None,
      pf_LabelSelector = [(''release'', ''devspace'')],
      pf_PortMappings = [\<lparr>LocalPort = 8080, RemotePort = 80\<rparr>]\<rparr>"

definition pf_other :: PortForwardingConfig where
  "pf_other = pf_web\<lparr>pf_LabelSelector := [(''release'', ''other'')]\<rparr>"

definition bare_pod :: Pod where
  "bare_pod = \<lparr>Pod_Name = ''bare-0'', Pod_Namespace = ''default'', Spec_Containers = []\<rparr>"

definition bare_env :: up_env where
  "bare_env = demo_env\<lparr>GetFirstRunningPod := (\<lambda>selector ns. (Some bare_pod, None))\<rparr>"

definition slow_env :: up_env where
  "slow_env = demo_env\<lparr>forwarding_ready := (\<lambda>pod ports. False)\<rparr>"

definition broken_env :: up_env where
  "broken_env = demo_env\<lparr>SyncConfig_Start := (\<lambda>session. Some ''exec failed'')\<rparr>"

definition idle_state :: up_state where
  "idle_state = \<lparr>cmd_pod = Some web_pod, generated_file = None, events = []\<rparr>"

definition forward_config :: up_config where
  "forward_config = demo_config\<lparr>DevSpace_Sync := [sync_web], DevSpace_PortForwarding := [pf_web]\<rparr>"

definition nosync_flags :: UpCmdFlags where
  "nosync_flags = demo_flags\<lparr>flag_sync := False\<rparr>"

definition other_config :: up_config where
  "other_config = demo_config\<lparr>DevSpace_Sync := [sync_other], DevSpace_PortForwarding := [pf_other]\<rparr>"

definition plain_remove_env :: remove_env where
  "plain_remove_env =
     \<lparr>parseSelectors = (\<lambda>selector. if selector = [] then Inr [] else Inr [(''release'', selector)]),
      isMapEqual = (\<lambda>a b. a = b),
      configutil_SaveConfig = (\<lambda>cfg file. (None, Some cfg))\<rparr>"

definition pf_two :: PortForwardingConfig where
  "pf_two =
     \<lparr>pf_Namespace = None, pf_ResourceType = None,
      pf_LabelSelector = [(''release'', ''api'')],
      pf_PortMappings = [\<lparr>LocalPort = 3000, RemotePort = 3000\<rparr>, \<lparr>LocalPort = 9229, RemotePort = 9229\<rparr>]\<rparr>"

definition listed_config :: DevSpaceConfig where
  "listed_config = \<lparr>Ports = Some [pf_web, pf_two], Sync = Some [sync_web]\<rparr>"

definition listed_state :: remove_state where
  "listed_state = \<lparr>loaded_config = listed_config, config_file = Some listed_config, remove_events = []\<rparr>"

definition no_sync_flags :: removeSyncCmdFlags where
  "no_sync_flags =
     \<lparr>syncFlags_Selector = [], syncFlags_LocalPath = [], syncFlags_ContainerPath = [],
      syncFlags_RemoveAll = False\<rparr>"

definition no_port_flags :: removePortCmdFlags where
  "no_port_flags = \<lparr>portFlags_Selector = [], portFlags_RemoveAll = False\<rparr>"

section \<open>Properties of the backend bootstrap\<close>

subsection \<open>The wait for the backend's replicas\<close>

lemma waitLoop_all_errors:
  "waitLoop fuel (\<lambda>_. Inl e) i slept t = None \<or> t \<le> 0"
  by (induction fuel arbitrary: i) auto

text \<open>
  C4. The claim is that for every sequence of status observations the wait returns within
  its two-minute budget, with the "didn't start in time" error when readiness never comes.
  The loop's error branch (\<^verbatim>\<open>continue\<close>) neither sleeps nor lowers the budget: against a
  cluster whose every status read fails, no number of iterations makes the function
  return.
\<close>

theorem waitUntilTillerIsStarted_never_returns_when_get_fails:
  "waitUntilTillerIsStarted fuel (\<lambda>_. Inl ''connection refused'') = None"
proof -
  have "waitLoop fuel (\<lambda>_. Inl ''connection refused'') 0 0 (2 * 60 * Second) = None
        \<or> 2 * 60 * Second \<le> 0"
    by (rule waitLoop_all_errors)
  then show ?thesis
    by (simp add: waitUntilTillerIsStarted_def Second_def)
qed

lemma waitLoop_no_errors_returns:
  assumes "\<And>i. \<exists>st. get i = Inr st"
    and "t \<le> int f * tillerCheckInterval"
  shows "waitLoop (Suc f) get i slept t \<noteq> None"
  using assms(2)
proof (induction f arbitrary: i slept t)
  case 0
  then show ?case by simp
next
  case (Suc f)
  obtain st where st: "get i = Inr st" using assms(1) by blast
  have "t - tillerCheckInterval \<le> int f * tillerCheckInterval"
    using Suc.prems by (simp add: algebra_simps)
  then have "waitLoop (Suc f) get (Suc i) (slept + tillerCheckInterval) (t - tillerCheckInterval) \<noteq> None"
    by (rule Suc.IH)
  then show ?case
    using st by (simp del: waitLoop.simps add: waitLoop.simps(2) [where fuel = "Suc f"])
qed

text \<open>
  What does hold of the wait: when no status read fails, it returns within 25 iterations
  (24 sleeps of five seconds use the two minutes up).
\<close>

theorem wait_bounded_when_reads_succeed:
  assumes "\<And>i. \<exists>st. get i = Inr st"
  shows "\<exists>result. waitUntilTillerIsStarted 25 get = Some result"
proof -
  have "2 * 60 * Second \<le> int 24 * tillerCheckInterval"
    by (simp add: Second_def tillerCheckInterval_def)
  from waitLoop_no_errors_returns [OF assms this]
  show ?thesis by (simp add: waitUntilTillerIsStarted_def del: waitLoop.simps)
qed

lemma never_ready_times_out:
  "waitUntilTillerIsStarted 25 never_ready =
     Some (Some ''Tiller didn't start in time'', 24, 120 * Second)"
  by (simp add: waitUntilTillerIsStarted_def never_ready_def eval_nat_numeral
      tillerCheckInterval_def Second_def)

theorem wait_bounded_when_reads_succeed_witness:
  "(\<exists>st. never_ready 0 = Inr st)
   \<and> waitUntilTillerIsStarted 25 never_ready =
       Some (Some ''Tiller didn't start in time'', 24, 120 * Second)"
proof -
  have h: "\<And>i. \<exists>st. never_ready i = Inr st" by (simp add: never_ready_def)
  from wait_bounded_when_reads_succeed [of never_ready, OF h]
  obtain result where "waitUntilTillerIsStarted 25 never_ready = Some result" by blast
  then have "waitUntilTillerIsStarted 25 never_ready =
       Some (Some ''Tiller didn't start in time'', 24, 120 * Second)"
    by (simp add: never_ready_times_out)
  with h show ?thesis by blast
qed

subsection \<open>The run-once client\<close>

text \<open>
  C3. The claim is that every caller of \<^verbatim>\<open>NewClient\<close> observes the outcome of the one
  bootstrap attempt: the same handle on success, the same error on failure. The handle is
  kept in a package variable, the error in a variable local to each call: with no tiller
  namespace configured the first call returns the error "No tiller namespace specified",
  and the next call returns no handle and no error.
\<close>

theorem NewClient_second_caller_gets_no_error:
  "NewClient 1 no_tiller_env False initial_globals =
     Some ((None, Some ''No tiller namespace specified''),
           \<lparr>helmClient = None, getOnce_done = True\<rparr>, [])
   \<and> NewClient 1 no_tiller_env False \<lparr>helmClient = None, getOnce_done = True\<rparr> =
     Some ((None, None), \<lparr>helmClient = None, getOnce_done = True\<rparr>, [])"
  by (simp add: NewClient_def once_body_def no_tiller_env_def initial_globals_def)

lemma NewClient_marks_done:
  "NewClient fuel env upgrade g = Some (r, g', calls) \<Longrightarrow> getOnce_done g'"
  by (auto simp: NewClient_def Let_def split: if_splits option.splits prod.splits)

lemma tunnelLoop_ready: "tunnelLoop (\<lambda>_. (Some \<lparr>Local = 44134\<rparr>, None)) 0 t = (Inr \<lparr>Local = 44134\<rparr>, 1)"
  by (simp add: tunnelLoop.simps)

lemma helmLoop_ready: "0 < t \<Longrightarrow> helmLoop (\<lambda>_. None) 0 t None = (None, 1)"
  by (simp add: helmLoop.simps)

lemma ready_first_call:
  "NewClient 1 ready_env False initial_globals =
     Some ((Some \<lparr>Client_Host = ''127.0.0.1:44134'', Settings_Home = ''/root/.devspace/helm'',
                  Namespace = ''kube-system''\<rparr>, None),
           \<lparr>helmClient = Some \<lparr>Client_Host = ''127.0.0.1:44134'', Settings_Home = ''/root/.devspace/helm'',
                               Namespace = ''kube-system''\<rparr>,
            getOnce_done = True\<rparr>,
           [GetNamespace, GetDeployment, GetDeployment, OpenTunnel, ListReleasesCall])"
  by (simp add: NewClient_def once_body_def ensureTiller_def ensure_workload_def wait_started_def
      waitUntilTillerIsStarted_def connect_def provision_home_def ready_env_def no_tiller_env_def
      initial_globals_def tunnelLoop_ready helmLoop_ready Second_def Itoa_def digits.simps
      digit_char_def Let_def)

text \<open>
  What does hold of the client: after any call that returned, a later call makes no call
  into the cluster, changes nothing and returns the stored handle with a nil error; the
  handle a call returned is the stored one.
\<close>

theorem later_NewClient_does_no_work:
  assumes "NewClient fuel env upgrade g = Some ((handle, err), g', calls)"
  shows "NewClient fuel' env' upgrade' g' = Some ((handle, None), g', [])"
proof -
  have d: "getOnce_done g'" using assms by (rule NewClient_marks_done)
  have "helmClient g' = handle"
    using assms by (auto simp: NewClient_def Let_def split: if_splits option.splits prod.splits)
  with d show ?thesis by (simp add: NewClient_def)
qed

theorem later_NewClient_does_no_work_witness:
  "NewClient 1 ready_env False initial_globals =
     Some ((Some \<lparr>Client_Host = ''127.0.0.1:44134'', Settings_Home = ''/root/.devspace/helm'',
                  Namespace = ''kube-system''\<rparr>, None),
           \<lparr>helmClient = Some \<lparr>Client_Host = ''127.0.0.1:44134'', Settings_Home = ''/root/.devspace/helm'',
                               Namespace = ''kube-system''\<rparr>,
            getOnce_done = True\<rparr>,
           [GetNamespace, GetDeployment, GetDeployment, OpenTunnel, ListReleasesCall])
   \<and> NewClient 0 no_tiller_env True
        \<lparr>helmClient = Some \<lparr>Client_Host = ''127.0.0.1:44134'', Settings_Home = ''/root/.devspace/helm'',
                            Namespace = ''kube-system''\<rparr>,
         getOnce_done = True\<rparr> =
     Some ((Some \<lparr>Client_Host = ''127.0.0.1:44134'', Settings_Home = ''/root/.devspace/helm'',
                  Namespace = ''kube-system''\<rparr>, None),
           \<lparr>helmClient = Some \<lparr>Client_Host = ''127.0.0.1:44134'', Settings_Home = ''/root/.devspace/helm'',
                               Namespace = ''kube-system''\<rparr>,
            getOnce_done = True\<rparr>,
           [])"
  using later_NewClient_does_no_work [OF ready_first_call, of 0 no_tiller_env True] ready_first_call
  by simp

section \<open>Properties of the deployment\<close>

lemma buildImages_loop_frame:
  "buildImages_loop env flags imgs g re s = (r, s1) \<Longrightarrow>
     generated_file s1 = generated_file s \<and> cmd_pod s1 = cmd_pod s \<and>
     (case r of Returned x \<Rightarrow> s1 = s | Exited \<Rightarrow> (\<exists>e. events s1 = events s @ [Log FatalLevel e]) | Panicked \<Rightarrow> False)"
proof (induction imgs arbitrary: g re)
  case Nil
  then show ?case by auto
next
  case (Cons a imgs)
  obtain n c where a: "a = (n, c)" by (cases a)
  show ?case
  proof (cases "image_Build env g n c (flag_build flags)")
    case (Inl e)
    with Cons.prems a show ?thesis by (auto simp: fatal_def emit_def)
  next
    case (Inr p)
    obtain b g' where p: "p = (b, g')" by (cases p)
    from Cons.prems a Inr p
    have "buildImages_loop env flags imgs g' (if b then True else re) s = (r, s1)" by simp
    then show ?thesis by (rule Cons.IH)
  qed
qed

lemma install_and_wait_shapes:
  assumes "install_and_wait config env vals s = (r, s1)"
  shows "generated_file s1 = generated_file s \<and>
    ((\<exists>e. install_result config env vals = Inl e \<and> r = Exited
          \<and> events s1 = events s @ [install_call config vals, Log FatalLevel ''Unable to deploy helm chart: %s''])
     \<or> (\<exists>revision e. install_result config env vals = Inr revision
          \<and> snd (wait_result config env revision) = Some e \<and> r = Exited
          \<and> events s1 = events s @ [install_call config vals,
                                   Log DoneLevel ''Deployed helm chart (Release revision: %d)'',
                                   wait_call config revision, Log FatalLevel e])
     \<or> (\<exists>revision. install_result config env vals = Inr revision
          \<and> snd (wait_result config env revision) = None \<and> r = Returned ()
          \<and> events s1 = events s @ [install_call config vals,
                                   Log DoneLevel ''Deployed helm chart (Release revision: %d)'',
                                   wait_call config revision]))"
  using assms
  by (auto simp: install_and_wait_def Let_def fatal_def emit_def split: sum.splits option.splits)

lemma deployChart_shapes:
  assumes "deployChart config env flags g s = (r, s1)"
  shows "(r = Exited \<and> generated_file s1 = generated_file s
            \<and> events s1 = events s @ [Log FatalLevel ''Couldn't deploy chart, error reading from chart values %s: %v''])
         \<or> (r = Panicked \<and> s1 = s)
         \<or> (\<exists>vals. install_and_wait config env vals s = (r, s1))"
  using assms
  by (auto simp: deployChart_def Let_def fatal_def emit_def split: sum.splits yaml_field.splits)

lemma save_generated_shapes:
  assumes "save_generated env g s = (r, s1)"
  shows "(r = Returned () \<and> events s1 = events s @ [CallGeneratedSaveConfig g])
         \<or> (r = Exited \<and> events s1 = events s @ [CallGeneratedSaveConfig g, Log FatalLevel ''Error saving config: %v''])"
  using assms
  by (auto simp: save_generated_def Let_def fatal_def emit_def split: option.splits)

lemma deploy_decision_shapes:
  assumes "deploy_decision config env flags m g h s = (r, s')"
  shows "(generated_file s' = generated_file s \<and> quiet_shape config env r (new_events s s'))
         \<or> saved_shape config env r (new_events s s')"
proof (cases "snd (getRunningDevSpacePod env) \<noteq> None \<or> m \<or> flag_deploy flags \<or> HelmChartHash g \<noteq> h")
  case False
  with assms have "s' = s\<lparr>cmd_pod := fst (getRunningDevSpacePod env)\<rparr>" and "r = Returned ()"
    by (auto simp: deploy_decision_def)
  then show ?thesis by (simp add: quiet_shape_def new_events_def)
next
  case True
  obtain r1 s1 where d: "deployChart config env flags g s = (r1, s1)" by (cases "deployChart config env flags g s")
  from deployChart_shapes [OF d]
  consider (read) "r1 = Exited" "generated_file s1 = generated_file s"
      "events s1 = events s @ [Log FatalLevel ''Couldn't deploy chart, error reading from chart values %s: %v'']"
    | (panic) "r1 = Panicked" "s1 = s"
    | (install) vals where "install_and_wait config env vals s = (r1, s1)"
    by blast
  then show ?thesis
  proof cases
    case read
    with True d assms have "r = Exited" "s' = s1" by (auto simp: deploy_decision_def)
    with read show ?thesis by (simp add: quiet_shape_def new_events_def)
  next
    case panic
    with True d assms have "r = Panicked" "s' = s" by (auto simp: deploy_decision_def)
    then show ?thesis by (simp add: quiet_shape_def new_events_def)
  next
    case install
    note iw = install_and_wait_shapes [OF install]
    show ?thesis
    proof (cases r1)
      case (Returned u)
      with iw obtain revision where revision: "install_result config env vals = Inr revision"
          "snd (wait_result config env revision) = None"
          "events s1 = events s @ [install_call config vals,
              Log DoneLevel ''Deployed helm chart (Release revision: %d)'', wait_call config revision]"
        by auto
      from True d Returned assms
      have sv: "save_generated env (g\<lparr>HelmChartHash := h\<rparr>) s1 = (r, s')"
        by (auto simp: deploy_decision_def)
      from save_generated_shapes [OF sv] revision
      have "saved_shape config env r (new_events s s')"
        unfolding saved_shape_def new_events_def
        by (intro exI [of _ vals] exI [of _ revision] exI [of _ "g\<lparr>HelmChartHash := h\<rparr>"]) auto
      then show ?thesis by simp
    next
      case Exited
      with True d assms have e: "r = Exited" "s' = s1" by (auto simp: deploy_decision_def)
      from iw Exited e have "generated_file s' = generated_file s" by simp
      moreover from iw Exited e have "quiet_shape config env r (new_events s s')"
        unfolding quiet_shape_def new_events_def by auto blast
      ultimately show ?thesis by simp
    next
      case Panicked
      with iw show ?thesis by auto
    qed
  qed
qed

lemma buildAndDeploy_shapes:
  assumes "buildAndDeploy config env flags s = (r, s')"
  shows "(generated_file s' = generated_file s \<and> quiet_shape config env r (new_events s s'))
         \<or> saved_shape config env r (new_events s s')"
proof (cases "generated_LoadConfig env (generated_file s)")
  case (Inl e)
  with assms show ?thesis
    by (auto simp: buildAndDeploy_def fatal_def emit_def quiet_shape_def new_events_def)
next
  case (Inr g0)
  obtain rb s1 where b: "buildImages config env flags g0 s = (rb, s1)"
    by (cases "buildImages config env flags g0 s")
  note fr = buildImages_loop_frame [OF b [unfolded buildImages_def]]
  show ?thesis
  proof (cases rb)
    case (Returned x)
    obtain m g1 where x: "x = (m, g1)" by (cases x)
    from fr Returned have s1: "s1 = s" by simp
    show ?thesis
    proof (cases "hash_Directory env ''chart''")
      case (Inl e)
      with assms Inr b Returned x s1 show ?thesis
        by (auto simp: buildAndDeploy_def fatal_def emit_def quiet_shape_def new_events_def)
    next
      case h: (Inr h)
      with assms Inr b Returned x s1
      have "deploy_decision config env flags m g1 h s = (r, s')"
        by (auto simp: buildAndDeploy_def)
      then show ?thesis by (rule deploy_decision_shapes)
    qed
  next
    case Exited
    with assms Inr b have "r = Exited" "s' = s1" by (auto simp: buildAndDeploy_def)
    with fr Exited show ?thesis by (auto simp: quiet_shape_def new_events_def)
  next
    case Panicked
    with fr show ?thesis by simp
  qed
qed

lemma wait_call_inj: "wait_call config revision = wait_call config revision' \<longleftrightarrow> revision = revision'"
  by (simp add: wait_call_def)

lemma install_call_inj: "install_call config vals = install_call config vals' \<longleftrightarrow> vals = vals'"
  by (simp add: install_call_def)

lemma call_distinct:
  "install_call config vals \<noteq> wait_call config revision"
  "install_call config vals \<noteq> CallGeneratedSaveConfig g"
  "install_call config vals \<noteq> Log l m"
  "wait_call config revision \<noteq> install_call config vals"
  "wait_call config revision \<noteq> CallGeneratedSaveConfig g"
  "wait_call config revision \<noteq> Log l m"
  "CallGeneratedSaveConfig g \<noteq> install_call config vals"
  "CallGeneratedSaveConfig g \<noteq> wait_call config revision"
  "Log l m \<noteq> install_call config vals"
  "Log l m \<noteq> wait_call config revision"
  by (simp_all add: install_call_def wait_call_def)

text \<open>
  One run of \<^verbatim>\<open>buildAndDeploy\<close>: a failed wait or a failed install exits with the generated
  config on disk as it was and no \<^verbatim>\<open>generated.SaveConfig\<close>; a \<^verbatim>\<open>generated.SaveConfig\<close> comes
  after an install-or-upgrade and a wait that both succeeded; the file changes only through
  that call.
\<close>

lemma save_only_after_install_and_wait:
  assumes "buildAndDeploy config env flags s = (r, s')"
  shows "(\<forall>revision err. wait_call config revision \<in> set (new_events s s')
              \<and> snd (wait_result config env revision) = Some err
            \<longrightarrow> r = Exited \<and> generated_file s' = generated_file s
                \<and> (\<forall>g. CallGeneratedSaveConfig g \<notin> set (new_events s s')))
       \<and> (\<forall>vals err. install_call config vals \<in> set (new_events s s')
              \<and> install_result config env vals = Inl err
            \<longrightarrow> r = Exited \<and> generated_file s' = generated_file s
                \<and> (\<forall>g. CallGeneratedSaveConfig g \<notin> set (new_events s s')))
       \<and> (\<forall>g. CallGeneratedSaveConfig g \<in> set (new_events s s')
            \<longrightarrow> (\<exists>vals revision rest.
                   new_events s s' =
                     [install_call config vals,
                      Log DoneLevel ''Deployed helm chart (Release revision: %d)'',
                      wait_call config revision, CallGeneratedSaveConfig g] @ rest
                   \<and> install_result config env vals = Inr revision
                   \<and> snd (wait_result config env revision) = None))
       \<and> (generated_file s' \<noteq> generated_file s
            \<longrightarrow> (\<exists>g. CallGeneratedSaveConfig g \<in> set (new_events s s')))"
proof -
  from buildAndDeploy_shapes [OF assms]
  consider (quiet) "generated_file s' = generated_file s" "quiet_shape config env r (new_events s s')"
    | (saved) "saved_shape config env r (new_events s s')"
    by blast
  then show ?thesis
  proof cases
    case quiet
    from quiet(2) have nosave: "\<forall>g. CallGeneratedSaveConfig g \<notin> set (new_events s s')"
      unfolding quiet_shape_def by (auto simp: call_distinct)
    from quiet(2) have w: "\<forall>revision. wait_call config revision \<in> set (new_events s s') \<longrightarrow> r = Exited"
      unfolding quiet_shape_def by (auto simp: call_distinct)
    from quiet(2) have i: "\<forall>vals. install_call config vals \<in> set (new_events s s') \<longrightarrow> r = Exited"
      unfolding quiet_shape_def by (auto simp: call_distinct)
    from quiet(1) nosave w i show ?thesis by blast
  next
    case saved
    then obtain vals revision g where
      ok: "install_result config env vals = Inr revision" "snd (wait_result config env revision) = None"
      and es: "new_events s s' = [install_call config vals,
                  Log DoneLevel ''Deployed helm chart (Release revision: %d)'',
                  wait_call config revision, CallGeneratedSaveConfig g]
             \<or> new_events s s' = [install_call config vals,
                  Log DoneLevel ''Deployed helm chart (Release revision: %d)'',
                  wait_call config revision, CallGeneratedSaveConfig g,
                  Log FatalLevel ''Error saving config: %v'']"
      unfolding saved_shape_def by blast
    have w: "\<forall>revision'. wait_call config revision' \<in> set (new_events s s') \<longrightarrow> revision' = revision"
      using es by (auto simp: call_distinct wait_call_inj)
    have i: "\<forall>vals'. install_call config vals' \<in> set (new_events s s') \<longrightarrow> vals' = vals"
      using es by (auto simp: call_distinct install_call_inj)
    have sv: "\<forall>g'. CallGeneratedSaveConfig g' \<in> set (new_events s s') \<longrightarrow> g' = g"
      using es by (auto simp: call_distinct)
    have shape: "\<exists>rest. new_events s s' =
                     [install_call config vals,
                      Log DoneLevel ''Deployed helm chart (Release revision: %d)'',
                      wait_call config revision, CallGeneratedSaveConfig g] @ rest"
      using es by auto
    have mem: "CallGeneratedSaveConfig g \<in> set (new_events s s')"
      using es by auto
    have c1: "\<forall>revision' err. wait_call config revision' \<in> set (new_events s s')
              \<and> snd (wait_result config env revision') = Some err \<longrightarrow> False"
      using w ok by auto
    have c2: "\<forall>vals' err. install_call config vals' \<in> set (new_events s s')
              \<and> install_result config env vals' = Inl err \<longrightarrow> False"
      using i ok by auto
    have c3: "\<forall>g'. CallGeneratedSaveConfig g' \<in> set (new_events s s')
            \<longrightarrow> (\<exists>vals revision rest.
                   new_events s s' =
                     [install_call config vals,
                      Log DoneLevel ''Deployed helm chart (Release revision: %d)'',
                      wait_call config revision, CallGeneratedSaveConfig g'] @ rest
                   \<and> install_result config env vals = Inr revision
                   \<and> snd (wait_result config env revision) = None)"
      using sv shape ok by blast
    from c1 c2 c3 mem show ?thesis by blast
  qed
qed


lemma install_and_wait_installs:
  assumes "install_and_wait config env ov s = (r, s1)"
  shows "\<exists>rest. events s1 = events s @ install_call config ov # rest"
  using install_and_wait_shapes [OF assms] by auto

lemma save_generated_appends:
  assumes "save_generated env g s = (r, s1)"
  shows "\<exists>rest. events s1 = events s @ rest"
  using save_generated_shapes [OF assms] by auto

lemma stale_chart_redeploys:
  assumes load: "generated_LoadConfig env (generated_file s) = Inr g0"
    and build: "buildImages config env flags g0 s = (Returned (m, g1), s1)"
    and hash: "hash_Directory env ''chart'' = Inr h"
    and stale: "HelmChartHash g1 \<noteq> h"
    and vals: "ReadYamlFromFile env ''chart/values.yaml'' = Inr vals"
    and seq: "values_pullSecrets vals \<noteq> NotASequence"
  shows "\<exists>ov. install_call config ov \<in> set (new_events s (snd (buildAndDeploy config env flags s)))"
proof -
  from buildImages_loop_frame [OF build [unfolded buildImages_def]] have s1: "s1 = s" by simp
  from vals seq obtain ov where dc: "deployChart config env flags g1 s = install_and_wait config env ov s"
    by (cases "values_pullSecrets vals") (auto simp: deployChart_def Let_def)
  obtain r2 s2 where iw: "install_and_wait config env ov s = (r2, s2)"
    by (cases "install_and_wait config env ov s")
  from install_and_wait_installs [OF iw] obtain rest
    where e2: "events s2 = events s @ install_call config ov # rest" by blast
  have run: "buildAndDeploy config env flags s =
               (case r2 of Returned u \<Rightarrow> save_generated env (g1\<lparr>HelmChartHash := h\<rparr>) s2
                | Exited \<Rightarrow> (Exited, s2) | Panicked \<Rightarrow> (Panicked, s2))"
    using load build hash stale s1 dc iw
    by (simp add: buildAndDeploy_def deploy_decision_def split: outcome.splits)
  have "\<exists>rest'. events (snd (buildAndDeploy config env flags s)) = events s @ install_call config ov # rest'"
  proof (cases r2)
    case (Returned u)
    obtain r3 s3 where sv: "save_generated env (g1\<lparr>HelmChartHash := h\<rparr>) s2 = (r3, s3)"
      by (cases "save_generated env (g1\<lparr>HelmChartHash := h\<rparr>) s2")
    from save_generated_appends [OF sv] obtain more where "events s3 = events s2 @ more" by blast
    with e2 run Returned sv show ?thesis by simp
  next
    case Exited
    with e2 run show ?thesis by simp
  next
    case Panicked
    with e2 run show ?thesis by simp
  qed
  then obtain rest' where "events (snd (buildAndDeploy config env flags s)) = events s @ install_call config ov # rest'"
    by blast
  then have "install_call config ov \<in> set (new_events s (snd (buildAndDeploy config env flags s)))"
    by (simp add: new_events_def)
  then show ?thesis by blast
qed

text \<open>
  C1, as claimed: after a failed readiness wait the generated config on disk is unchanged,
  so the next run re-attempts deployment. The file is unchanged, but the next run need not
  deploy: of the four triggers of \<^verbatim>\<open>buildAndDeploy\<close> only the fingerprint is kept in the file.
  A run that deploys because no running release pod is found, with the chart hash equal to
  the persisted fingerprint, and whose wait times out, leaves the file as it was; a next
  run that finds the pod running returns with no event at all, so with no install.
\<close>

theorem failed_wait_next_run_counterexample:
  "buildAndDeploy demo_config lost_env demo_flags demo_state = (Exited, lost_final)
   \<and> wait_call demo_config 2 \<in> set (new_events demo_state lost_final)
   \<and> snd (wait_result demo_config lost_env 2) = Some ''timeout''
   \<and> generated_file lost_final = generated_file demo_state
   \<and> buildAndDeploy demo_config demo_env demo_flags next_start =
       (Returned (), next_start\<lparr>cmd_pod := Some web_pod\<rparr>)
   \<and> new_events next_start (next_start\<lparr>cmd_pod := Some web_pod\<rparr>) = []"
  by (simp add: buildAndDeploy_def buildImages_def deploy_decision_def deployChart_def
      install_and_wait_def install_call_def wait_call_def install_result_def wait_result_def
      container_entry_def save_generated_def fatal_def emit_def Let_def new_events_def
      demo_config_def lost_env_def demo_env_def demo_flags_def demo_state_def
      web_pod_def demo_values_def lost_final_def next_start_def)

text \<open>
  C1, amended. Whatever \<^verbatim>\<open>buildAndDeploy\<close> does: if the wait for a release pod was made and
  failed (or the install-or-upgrade call was made and failed), the process exits, the
  generated config on disk is what it was and \<^verbatim>\<open>generated.SaveConfig\<close> was not called; if
  \<^verbatim>\<open>generated.SaveConfig\<close> was called, then the install-or-upgrade call and the wait came
  before it and both succeeded; the file on disk changes only through that call. And
  after a failed wait, a next run on the file that run left, for which the chart hash
  differs from the fingerprint the file held, takes the deploy branch again: it calls
  \<^verbatim>\<open>deployChart\<close>, and makes the install-or-upgrade call when the chart's values are readable.
\<close>

theorem failed_wait_keeps_fingerprint_and_stale_chart_redeploys:
  assumes "buildAndDeploy config env flags s = (r, s')"
  shows "(\<forall>revision err. wait_call config revision \<in> set (new_events s s')
              \<and> snd (wait_result config env revision) = Some err
            \<longrightarrow> r = Exited \<and> generated_file s' = generated_file s
                \<and> (\<forall>g. CallGeneratedSaveConfig g \<notin> set (new_events s s')))
       \<and> (\<forall>vals err. install_call config vals \<in> set (new_events s s')
              \<and> install_result config env vals = Inl err
            \<longrightarrow> r = Exited \<and> generated_file s' = generated_file s
                \<and> (\<forall>g. CallGeneratedSaveConfig g \<notin> set (new_events s s')))
       \<and> (\<forall>g. CallGeneratedSaveConfig g \<in> set (new_events s s')
            \<longrightarrow> (\<exists>vals revision rest.
                   new_events s s' =
                     [install_call config vals,
                      Log DoneLevel ''Deployed helm chart (Release revision: %d)'',
                      wait_call config revision, CallGeneratedSaveConfig g] @ rest
                   \<and> install_result config env vals = Inr revision
                   \<and> snd (wait_result config env revision) = None))
       \<and> (generated_file s' \<noteq> generated_file s
            \<longrightarrow> (\<exists>g. CallGeneratedSaveConfig g \<in> set (new_events s s')))
       \<and> (\<forall>revision err g0 m g1 s1 h.
              wait_call config revision \<in> set (new_events s s')
              \<and> snd (wait_result config env revision) = Some err
              \<and> generated_file later = generated_file s'
              \<and> generated_LoadConfig env' (generated_file s) = Inr g0
              \<and> buildImages config env' flags' g0 later = (Returned (m, g1), s1)
              \<and> hash_Directory env' ''chart'' = Inr h
              \<and> HelmChartHash g1 \<noteq> h
            \<longrightarrow> buildAndDeploy config env' flags' later =
                  (case deployChart config env' flags' g1 later of
                     (Returned u, s2) \<Rightarrow> save_generated env' (g1\<lparr>HelmChartHash := h\<rparr>) s2
                   | (Exited, s2) \<Rightarrow> (Exited, s2)
                   | (Panicked, s2) \<Rightarrow> (Panicked, s2))
                \<and> (\<forall>vals. ReadYamlFromFile env' ''chart/values.yaml'' = Inr vals
                       \<and> values_pullSecrets vals \<noteq> NotASequence
                     \<longrightarrow> (\<exists>ov. install_call config ov
                            \<in> set (new_events later (snd (buildAndDeploy config env' flags' later))))))"
proof -
  note one = save_only_after_install_and_wait [OF assms]
  have two: "buildAndDeploy config env' flags' later =
                  (case deployChart config env' flags' g1 later of
                     (Returned u, s2) \<Rightarrow> save_generated env' (g1\<lparr>HelmChartHash := h\<rparr>) s2
                   | (Exited, s2) \<Rightarrow> (Exited, s2)
                   | (Panicked, s2) \<Rightarrow> (Panicked, s2))
                \<and> (\<forall>vals. ReadYamlFromFile env' ''chart/values.yaml'' = Inr vals
                       \<and> values_pullSecrets vals \<noteq> NotASequence
                     \<longrightarrow> (\<exists>ov. install_call config ov
                            \<in> set (new_events later (snd (buildAndDeploy config env' flags' later)))))"
    if w: "wait_call config revision \<in> set (new_events s s')"
          "snd (wait_result config env revision) = Some err"
      and same: "generated_file later = generated_file s'"
      and load: "generated_LoadConfig env' (generated_file s) = Inr g0"
      and build: "buildImages config env' flags' g0 later = (Returned (m, g1), s1)"
      and hash: "hash_Directory env' ''chart'' = Inr h"
      and stale: "HelmChartHash g1 \<noteq> h"
    for revision err g0 m g1 s1 h
  proof -
    from one w have "generated_file s' = generated_file s" by blast
    with same load have load': "generated_LoadConfig env' (generated_file later) = Inr g0" by simp
    from buildImages_loop_frame [OF build [unfolded buildImages_def]] have s1: "s1 = later" by simp
    have a: "buildAndDeploy config env' flags' later =
                  (case deployChart config env' flags' g1 later of
                     (Returned u, s2) \<Rightarrow> save_generated env' (g1\<lparr>HelmChartHash := h\<rparr>) s2
                   | (Exited, s2) \<Rightarrow> (Exited, s2)
                   | (Panicked, s2) \<Rightarrow> (Panicked, s2))"
      using load' build hash stale s1 by (simp add: buildAndDeploy_def deploy_decision_def)
    have b: "\<exists>ov. install_call config ov
                \<in> set (new_events later (snd (buildAndDeploy config env' flags' later)))"
      if "ReadYamlFromFile env' ''chart/values.yaml'' = Inr vals"
         "values_pullSecrets vals \<noteq> NotASequence" for vals
      using load' build hash stale that by (rule stale_chart_redeploys)
    from a b show ?thesis by blast
  qed
  have three: "\<forall>revision err g0 m g1 s1 h.
              wait_call config revision \<in> set (new_events s s')
              \<and> snd (wait_result config env revision) = Some err
              \<and> generated_file later = generated_file s'
              \<and> generated_LoadConfig env' (generated_file s) = Inr g0
              \<and> buildImages config env' flags' g0 later = (Returned (m, g1), s1)
              \<and> hash_Directory env' ''chart'' = Inr h
              \<and> HelmChartHash g1 \<noteq> h
            \<longrightarrow> buildAndDeploy config env' flags' later =
                  (case deployChart config env' flags' g1 later of
                     (Returned u, s2) \<Rightarrow> save_generated env' (g1\<lparr>HelmChartHash := h\<rparr>) s2
                   | (Exited, s2) \<Rightarrow> (Exited, s2)
                   | (Panicked, s2) \<Rightarrow> (Panicked, s2))
                \<and> (\<forall>vals. ReadYamlFromFile env' ''chart/values.yaml'' = Inr vals
                       \<and> values_pullSecrets vals \<noteq> NotASequence
                     \<longrightarrow> (\<exists>ov. install_call config ov
                            \<in> set (new_events later (snd (buildAndDeploy config env' flags' later)))))"
  proof (intro allI impI, elim conjE)
    fix revision err g0 m g1 s1 h
    assume "wait_call config revision \<in> set (new_events s s')"
      "snd (wait_result config env revision) = Some err"
      "generated_file later = generated_file s'"
      "generated_LoadConfig env' (generated_file s) = Inr g0"
      "buildImages config env' flags' g0 later = (Returned (m, g1), s1)"
      "hash_Directory env' ''chart'' = Inr h"
      "HelmChartHash g1 \<noteq> h"
    then show "buildAndDeploy config env' flags' later =
                  (case deployChart config env' flags' g1 later of
                     (Returned u, s2) \<Rightarrow> save_generated env' (g1\<lparr>HelmChartHash := h\<rparr>) s2
                   | (Exited, s2) \<Rightarrow> (Exited, s2)
                   | (Panicked, s2) \<Rightarrow> (Panicked, s2))
                \<and> (\<forall>vals. ReadYamlFromFile env' ''chart/values.yaml'' = Inr vals
                       \<and> values_pullSecrets vals \<noteq> NotASequence
                     \<longrightarrow> (\<exists>ov. install_call config ov
                            \<in> set (new_events later (snd (buildAndDeploy config env' flags' later)))))"
      by (rule two)
  qed
  from one three show ?thesis
    apply -
    apply (elim conjE)
    apply (intro conjI)
    apply assumption+
    done
qed

theorem failed_wait_keeps_fingerprint_and_stale_chart_redeploys_witness:
  "buildAndDeploy demo_config stuck_env demo_flags stale_state = (Exited, stuck_final)
   \<and> wait_call demo_config 2 \<in> set (new_events stale_state stuck_final)
   \<and> snd (wait_result demo_config stuck_env 2) = Some ''timeout''
   \<and> generated_file stuck_final = generated_file stale_state
   \<and> buildAndDeploy demo_config demo_env demo_flags stale_state = (Returned (), fresh_final)
   \<and> generated_file fresh_final \<noteq> generated_file stale_state
   \<and> (\<exists>g vals revision rest.
         new_events stale_state fresh_final =
           [install_call demo_config vals,
            Log DoneLevel ''Deployed helm chart (Release revision: %d)'',
            wait_call demo_config revision, CallGeneratedSaveConfig g] @ rest
         \<and> install_result demo_config demo_env vals = Inr revision
         \<and> snd (wait_result demo_config demo_env revision) = None)
   \<and> generated_file stale_state = generated_file stuck_final
   \<and> generated_LoadConfig demo_env (generated_file stale_state)
       = Inr \<lparr>HelmChartHash = ''old'', Generated_Rest = []\<rparr>
   \<and> buildImages demo_config demo_env demo_flags \<lparr>HelmChartHash = ''old'', Generated_Rest = []\<rparr> stale_state
       = (Returned (False, \<lparr>HelmChartHash = ''old'', Generated_Rest = []\<rparr>), stale_state)
   \<and> hash_Directory demo_env ''chart'' = Inr ''abc123''
   \<and> ReadYamlFromFile demo_env ''chart/values.yaml'' = Inr \<lparr>values_pullSecrets = Absent\<rparr>
   \<and> (\<exists>ov. install_call demo_config ov
          \<in> set (new_events stale_state (snd (buildAndDeploy demo_config demo_env demo_flags stale_state))))"
proof -
  have run1: "buildAndDeploy demo_config stuck_env demo_flags stale_state = (Exited, stuck_final)"
    by (simp add: buildAndDeploy_def buildImages_def deploy_decision_def deployChart_def
        install_and_wait_def install_call_def wait_call_def install_result_def wait_result_def
        container_entry_def save_generated_def fatal_def emit_def Let_def
        demo_config_def stuck_env_def demo_env_def demo_flags_def stale_state_def
        web_pod_def demo_values_def stuck_final_def fresh_final_def)
  have h1: "wait_call demo_config 2 \<in> set (new_events stale_state stuck_final)"
    by (simp add: new_events_def stale_state_def stuck_final_def)
  have h2: "snd (wait_result demo_config stuck_env 2) = Some ''timeout''"
    by (simp add: wait_result_def stuck_env_def)
  from failed_wait_keeps_fingerprint_and_stale_chart_redeploys
         [OF run1, where later = stale_state and env' = demo_env and flags' = demo_flags] h1 h2
  have c1: "generated_file stuck_final = generated_file stale_state" by blast
  have run2: "buildAndDeploy demo_config demo_env demo_flags stale_state = (Returned (), fresh_final)"
    by (simp add: buildAndDeploy_def buildImages_def deploy_decision_def deployChart_def
        install_and_wait_def install_call_def wait_call_def install_result_def wait_result_def
        container_entry_def save_generated_def fatal_def emit_def Let_def
        demo_config_def stuck_env_def demo_env_def demo_flags_def stale_state_def
        web_pod_def demo_values_def stuck_final_def fresh_final_def)
  have h3: "generated_file fresh_final \<noteq> generated_file stale_state"
    by (simp add: stale_state_def fresh_final_def)
  from failed_wait_keeps_fingerprint_and_stale_chart_redeploys
         [OF run2, where later = stale_state and env' = demo_env and flags' = demo_flags] h3
  have c2: "\<exists>g vals revision rest.
         new_events stale_state fresh_final =
           [install_call demo_config vals,
            Log DoneLevel ''Deployed helm chart (Release revision: %d)'',
            wait_call demo_config revision, CallGeneratedSaveConfig g] @ rest
         \<and> install_result demo_config demo_env vals = Inr revision
         \<and> snd (wait_result demo_config demo_env revision) = None"
    by blast
  have k1: "generated_file stale_state = generated_file stuck_final"
    by (simp add: stale_state_def stuck_final_def)
  have k2: "generated_LoadConfig demo_env (generated_file stale_state)
       = Inr \<lparr>HelmChartHash = ''old'', Generated_Rest = []\<rparr>"
    by (simp add: demo_env_def stale_state_def)
  have k3: "buildImages demo_config demo_env demo_flags \<lparr>HelmChartHash = ''old'', Generated_Rest = []\<rparr> stale_state
       = (Returned (False, \<lparr>HelmChartHash = ''old'', Generated_Rest = []\<rparr>), stale_state)"
    by (simp add: buildImages_def demo_config_def demo_env_def demo_flags_def)
  have k4: "hash_Directory demo_env ''chart'' = Inr ''abc123''"
    by (simp add: demo_env_def)
  have k5: "HelmChartHash \<lparr>HelmChartHash = ''old'', Generated_Rest = []\<rparr> \<noteq> ''abc123''"
    by simp
  have k6: "ReadYamlFromFile demo_env ''chart/values.yaml'' = Inr \<lparr>values_pullSecrets = Absent\<rparr>"
    by (simp add: demo_env_def)
  have k7: "values_pullSecrets \<lparr>values_pullSecrets = Absent\<rparr> \<noteq> NotASequence"
    by simp
  from failed_wait_keeps_fingerprint_and_stale_chart_redeploys
         [OF run1, where later = stale_state and env' = demo_env and flags' = demo_flags]
       h1 h2 k1 k2 k3 k4 k5 k6 k7
  have c3: "\<exists>ov. install_call demo_config ov
          \<in> set (new_events stale_state (snd (buildAndDeploy demo_config demo_env demo_flags stale_state)))"
    by blast
  from run1 h1 h2 c1 run2 h3 c2 k1 k2 k3 k4 k6 c3 show ?thesis by blast
qed

text \<open>
  C2. When the generated config loads, no image had to be rebuilt, the chart directory
  hashes to the fingerprint the generated config holds, a running release pod is found and
  the deploy flag is off, \<^verbatim>\<open>buildAndDeploy\<close> returns with the command's pod set to that pod,
  with no event added (no install-or-upgrade, no save) and the generated config on disk
  untouched.
\<close>

theorem unchanged_chart_reuses_running_pod:
  assumes load: "generated_LoadConfig env (generated_file s) = Inr g0"
    and build: "buildImages config env flags g0 s = (Returned (False, g1), s1)"
    and hash: "hash_Directory env ''chart'' = Inr hash"
    and pod: "getRunningDevSpacePod env = (Some pod, None)"
    and force: "flag_deploy flags = False"
    and same: "HelmChartHash g1 = hash"
  shows "\<exists>s'. buildAndDeploy config env flags s = (Returned (), s')
           \<and> cmd_pod s' = Some pod
           \<and> events s' = events s
           \<and> generated_file s' = generated_file s"
proof -
  from buildImages_loop_frame [OF build [unfolded buildImages_def]] have "s1 = s" by simp
  with load build hash pod force same
  have "buildAndDeploy config env flags s = (Returned (), s\<lparr>cmd_pod := Some pod\<rparr>)"
    by (simp add: buildAndDeploy_def deploy_decision_def)
  then show ?thesis by simp
qed

theorem unchanged_chart_reuses_running_pod_witness:
  "generated_LoadConfig demo_env (generated_file demo_state)
     = Inr \<lparr>HelmChartHash = ''abc123'', Generated_Rest = []\<rparr>
   \<and> buildImages demo_config demo_env demo_flags \<lparr>HelmChartHash = ''abc123'', Generated_Rest = []\<rparr> demo_state
     = (Returned (False, \<lparr>HelmChartHash = ''abc123'', Generated_Rest = []\<rparr>), demo_state)
   \<and> hash_Directory demo_env ''chart'' = Inr ''abc123''
   \<and> getRunningDevSpacePod demo_env = (Some web_pod, None)
   \<and> flag_deploy demo_flags = False
   \<and> (\<exists>s'. buildAndDeploy demo_config demo_env demo_flags demo_state = (Returned (), s')
           \<and> cmd_pod s' = Some web_pod
           \<and> events s' = events demo_state
           \<and> generated_file s' = generated_file demo_state)"
proof -
  have load: "generated_LoadConfig demo_env (generated_file demo_state)
     = Inr \<lparr>HelmChartHash = ''abc123'', Generated_Rest = []\<rparr>"
    by (simp add: demo_env_def demo_state_def)
  have build: "buildImages demo_config demo_env demo_flags \<lparr>HelmChartHash = ''abc123'', Generated_Rest = []\<rparr> demo_state
     = (Returned (False, \<lparr>HelmChartHash = ''abc123'', Generated_Rest = []\<rparr>), demo_state)"
    by (simp add: buildImages_def demo_config_def demo_env_def demo_flags_def)
  have hash: "hash_Directory demo_env ''chart'' = Inr ''abc123''"
    by (simp add: demo_env_def)
  have pod: "getRunningDevSpacePod demo_env = (Some web_pod, None)"
    by (simp add: demo_env_def)
  have force: "flag_deploy demo_flags = False"
    by (simp add: demo_flags_def)
  have same: "HelmChartHash \<lparr>HelmChartHash = ''abc123'', Generated_Rest = []\<rparr> = ''abc123''"
    by simp
  from unchanged_chart_reuses_running_pod [OF load build hash pod force same]
  show ?thesis using load build hash pod force by blast
qed

section \<open>Properties of the sessions\<close>

lemma port_pair_8080: "port_pair \<lparr>LocalPort = 8080, RemotePort = 80\<rparr> = ''8080:80''"
  by (simp add: port_pair_def Itoa_def digits.simps digit_char_def)

lemma start_session_not_panicked: "fst (start_session env flags d p pod c s) \<noteq> Panicked"
  by (simp add: start_session_def Let_def fatal_def split: option.splits)

lemma sync_on_pod_never_panics: "fst (sync_on_pod env flags d p pod s) \<noteq> Panicked"
  by (auto simp: sync_on_pod_def start_session_not_panicked split: list.splits option.splits)

text \<open>
  C9. A sync declaration whose pod has no containers logs the warning, starts nothing and
  lets the loop go on with the next declaration; and for no pod at all does the selection
  of the first container read outside the container list (the iteration never panics).
\<close>

theorem empty_pod_is_skipped_without_indexing:
  assumes "filepath_Abs env (sync_LocalSubPath d) = Inr p"
    and "GetFirstRunningPod env (Join (selector_labels (sync_LabelSelector d)) '', '')
           (target_namespace config (sync_Namespace d)) = (Some pod, None)"
    and "Spec_Containers pod = []"
  shows "startSync_step config env flags d s =
           (Returned None,
            emit [Log WarnLevel ''Cannot start sync on pod, because selected pod %s/%s has no containers''] s)
       \<and> startSync_loop config env flags (d # rest) acc s =
           startSync_loop config env flags rest acc
             (emit [Log WarnLevel ''Cannot start sync on pod, because selected pod %s/%s has no containers''] s)
       \<and> fst (sync_on_pod env' flags' d' p' pod' s') \<noteq> Panicked"
proof -
  have a: "startSync_step config env flags d s =
           (Returned None,
            emit [Log WarnLevel ''Cannot start sync on pod, because selected pod %s/%s has no containers''] s)"
    using assms by (simp add: startSync_step_def sync_on_pod_def)
  then have b: "startSync_loop config env flags (d # rest) acc s =
           startSync_loop config env flags rest acc
             (emit [Log WarnLevel ''Cannot start sync on pod, because selected pod %s/%s has no containers''] s)"
    by simp
  from a b sync_on_pod_never_panics show ?thesis by blast
qed

theorem empty_pod_is_skipped_without_indexing_witness:
  "filepath_Abs bare_env (sync_LocalSubPath sync_web) = Inr ''/work/src''
   \<and> GetFirstRunningPod bare_env (Join (selector_labels (sync_LabelSelector sync_web)) '', '')
        (target_namespace demo_config (sync_Namespace sync_web)) = (Some bare_pod, None)
   \<and> Spec_Containers bare_pod = []
   \<and> startSync_loop demo_config bare_env demo_flags [sync_web] [] idle_state =
        (Returned [],
         emit [Log WarnLevel ''Cannot start sync on pod, because selected pod %s/%s has no containers''] idle_state)"
proof -
  have a: "filepath_Abs bare_env (sync_LocalSubPath sync_web) = Inr ''/work/src''"
    by (simp add: bare_env_def demo_env_def sync_web_def)
  have b: "GetFirstRunningPod bare_env (Join (selector_labels (sync_LabelSelector sync_web)) '', '')
        (target_namespace demo_config (sync_Namespace sync_web)) = (Some bare_pod, None)"
    by (simp add: bare_env_def)
  have c: "Spec_Containers bare_pod = []"
    by (simp add: bare_pod_def)
  from empty_pod_is_skipped_without_indexing [OF a b c, of demo_flags idle_state "[]" "[]"]
  have "startSync_loop demo_config bare_env demo_flags [sync_web] [] idle_state =
        (Returned [],
         emit [Log WarnLevel ''Cannot start sync on pod, because selected pod %s/%s has no containers''] idle_state)"
    by simp
  with a b c show ?thesis by blast
qed

lemma find_container_none: "name \<notin> Container_Name ` set cs \<Longrightarrow> find_container name cs = None"
  by (induction cs) auto

text \<open>
  C7. For a sync declaration whose pod was found and has containers: with no container
  name (absent or empty) the session is started on the pod's first container; with a name
  that no container of the pod bears, the warning is logged, nothing is started and the
  loop goes on with the remaining declarations.
\<close>

theorem container_selection:
  assumes "filepath_Abs env (sync_LocalSubPath d) = Inr p"
    and "GetFirstRunningPod env (Join (selector_labels (sync_LabelSelector d)) '', '')
           (target_namespace config (sync_Namespace d)) = (Some pod, None)"
    and "Spec_Containers pod = first # others"
  shows "(sync_ContainerName d = None \<or> sync_ContainerName d = Some []
            \<longrightarrow> startSync_step config env flags d s = start_session env flags d p pod first s
                \<and> hd (new_events s (snd (start_session env flags d p pod first s)))
                    = CallSyncStart (new_SyncConfig flags d p pod first)
                \<and> Session_Container (new_SyncConfig flags d p pod first) = first)
       \<and> (\<forall>name. sync_ContainerName d = Some name \<and> name \<noteq> []
               \<and> name \<notin> Container_Name ` set (Spec_Containers pod)
            \<longrightarrow> startSync_step config env flags d s =
                  (Returned None,
                   emit [Log WarnLevel ''Couldn't start sync, because container %s wasn't found in pod %s/%s''] s)
                \<and> startSync_loop config env flags (d # rest) acc s =
                    startSync_loop config env flags rest acc
                      (emit [Log WarnLevel ''Couldn't start sync, because container %s wasn't found in pod %s/%s''] s))"
proof -
  have ev: "hd (new_events s (snd (start_session env flags d p pod first s)))
              = CallSyncStart (new_SyncConfig flags d p pod first)"
    by (simp add: start_session_def Let_def fatal_def emit_def new_events_def split: option.splits)
  have sel: "Session_Container (new_SyncConfig flags d p pod first) = first"
    by (simp add: new_SyncConfig_def)
  have a: "sync_ContainerName d = None \<or> sync_ContainerName d = Some []
             \<Longrightarrow> startSync_step config env flags d s = start_session env flags d p pod first s"
    using assms by (auto simp: startSync_step_def sync_on_pod_def)
  have b: "startSync_step config env flags d s =
             (Returned None,
              emit [Log WarnLevel ''Couldn't start sync, because container %s wasn't found in pod %s/%s''] s)"
    if "sync_ContainerName d = Some name" "name \<noteq> []"
       "name \<notin> Container_Name ` set (Spec_Containers pod)" for name
  proof -
    from that(3) have "find_container name (Spec_Containers pod) = None"
      by (rule find_container_none)
    with assms that(1,2) show ?thesis
      by (simp add: startSync_step_def sync_on_pod_def)
  qed
  from a b ev sel show ?thesis by simp
qed

theorem container_selection_witness:
  "filepath_Abs demo_env (sync_LocalSubPath sync_db) = Inr ''/work/src''
   \<and> GetFirstRunningPod demo_env (Join (selector_labels (sync_LabelSelector sync_db)) '', '')
        (target_namespace demo_config (sync_Namespace sync_db)) = (Some web_pod, None)
   \<and> Spec_Containers web_pod = [\<lparr>Container_Name = ''app''\<rparr>, \<lparr>Container_Name = ''sidecar''\<rparr>]
   \<and> sync_ContainerName sync_db = Some ''db''
   \<and> ''db'' \<notin> Container_Name ` set (Spec_Containers web_pod)
   \<and> sync_ContainerName sync_web = None
   \<and> startSync_step demo_config demo_env demo_flags sync_web idle_state =
        start_session demo_env demo_flags sync_web ''/work/src'' web_pod \<lparr>Container_Name = ''app''\<rparr> idle_state
   \<and> startSync_loop demo_config demo_env demo_flags [sync_db, sync_web] [] idle_state =
        startSync_loop demo_config demo_env demo_flags [sync_web] []
          (emit [Log WarnLevel ''Couldn't start sync, because container %s wasn't found in pod %s/%s''] idle_state)"
proof -
  have a: "filepath_Abs demo_env (sync_LocalSubPath sync_db) = Inr ''/work/src''"
    by (simp add: demo_env_def sync_db_def sync_web_def)
  have a': "filepath_Abs demo_env (sync_LocalSubPath sync_web) = Inr ''/work/src''"
    by (simp add: demo_env_def sync_web_def)
  have b: "GetFirstRunningPod demo_env (Join (selector_labels (sync_LabelSelector sync_db)) '', '')
        (target_namespace demo_config (sync_Namespace sync_db)) = (Some web_pod, None)"
    by (simp add: demo_env_def sync_db_def sync_web_def selector_labels_def)
  have b': "GetFirstRunningPod demo_env (Join (selector_labels (sync_LabelSelector sync_web)) '', '')
        (target_namespace demo_config (sync_Namespace sync_web)) = (Some web_pod, None)"
    by (simp add: demo_env_def sync_web_def selector_labels_def)
  have c: "Spec_Containers web_pod = [\<lparr>Container_Name = ''app''\<rparr>, \<lparr>Container_Name = ''sidecar''\<rparr>]"
    by (simp add: web_pod_def)
  have n: "sync_ContainerName sync_db = Some ''db''"
    by (simp add: sync_db_def)
  have m: "''db'' \<notin> Container_Name ` set (Spec_Containers web_pod)"
    by (simp add: web_pod_def)
  have n': "sync_ContainerName sync_web = None"
    by (simp add: sync_web_def)
  from container_selection [OF a' b' c, of demo_flags idle_state] n'
  have first: "startSync_step demo_config demo_env demo_flags sync_web idle_state =
        start_session demo_env demo_flags sync_web ''/work/src'' web_pod \<lparr>Container_Name = ''app''\<rparr> idle_state"
    by blast
  from container_selection [OF a b c, of demo_flags idle_state "[sync_web]" "[]"] n m
  have skip: "startSync_loop demo_config demo_env demo_flags [sync_db, sync_web] [] idle_state =
        startSync_loop demo_config demo_env demo_flags [sync_web] []
          (emit [Log WarnLevel ''Couldn't start sync, because container %s wasn't found in pod %s/%s''] idle_state)"
    by blast
  from a b c n m n' first skip show ?thesis by blast
qed

lemma startPortForwarding_loop_cmd_pod:
  "cmd_pod (startPortForwarding_loop config env pfs s) = cmd_pod s"
  by (induction pfs arbitrary: s)
     (auto simp: startPortForwarding_step_def forward_to_pod_def emit_def Let_def
           split: prod.splits option.splits)

lemma start_session_events:
  "start_session env flags d p pod c s = (r, s1) \<Longrightarrow>
     (SyncConfig_Start env (new_SyncConfig flags d p pod c) \<noteq> None \<and> r = Exited
        \<and> new_events s s1 = [CallSyncStart (new_SyncConfig flags d p pod c), Log FatalLevel ''Sync error: %s''])
     \<or> (SyncConfig_Start env (new_SyncConfig flags d p pod c) = None
        \<and> r = Returned (Some (new_SyncConfig flags d p pod c))
        \<and> new_events s s1 = [CallSyncStart (new_SyncConfig flags d p pod c),
                              Log DoneLevel ''Sync started on %s <-> %s (Pod: %s/%s)''])"
  by (auto simp: start_session_def Let_def fatal_def emit_def new_events_def split: option.splits)

lemma startSync_step_start_failed:
  assumes "CallSyncStart session \<in> set (new_events s (snd (startSync_step config env flags d s)))"
    and "SyncConfig_Start env session = Some err"
  shows "fst (startSync_step config env flags d s) = Exited"
proof -
  obtain r s1 where st: "startSync_step config env flags d s = (r, s1)"
    by (cases "startSync_step config env flags d s")
  have "(\<exists>l m. new_events s s1 = [Log l m]) \<or> new_events s s1 = []
        \<or> (\<exists>p pod c. start_session env flags d p pod c s = (r, s1))"
    using st
    by (auto simp: startSync_step_def sync_on_pod_def panic_def emit_def new_events_def
             split: sum.splits prod.splits option.splits if_splits list.splits)
  then consider (quiet) "\<forall>x. CallSyncStart x \<notin> set (new_events s s1)"
    | (started) p pod c where "start_session env flags d p pod c s = (r, s1)"
    by auto
  then show ?thesis
  proof cases
    case quiet
    with assms(1) st show ?thesis by simp
  next
    case started
    from start_session_events [OF started] assms st show ?thesis by auto
  qed
qed

text \<open>
  C6. A sync session whose \<^verbatim>\<open>Start\<close> returns an error ends the process: the iteration
  exits fatally, the loop and the rest of \<^verbatim>\<open>Run\<close> with it. A port-forward mapping whose
  readiness signal does not arrive within the five seconds only logs the timeout: the
  loop goes on with the next mapping, and \<^verbatim>\<open>Run\<close> goes on to the sync sessions and to
  the terminal.
\<close>

theorem sync_failure_is_fatal_forward_timeout_is_not:
  shows "(CallSyncStart session \<in> set (new_events s (snd (startSync_step config env flags d s)))
            \<and> SyncConfig_Start env session = Some failure
            \<longrightarrow> fst (startSync_step config env flags d s) = Exited
                \<and> fst (startSync_loop config env flags (d # rest) acc s) = Exited)
       \<and> (SyncConfig_Start env (new_SyncConfig flags d p pod c) = Some err
            \<longrightarrow> start_session env flags d p pod c s =
                  (Exited, emit [CallSyncStart (new_SyncConfig flags d p pod c),
                                 Log FatalLevel ''Sync error: %s''] s))
       \<and> (startSync_step config env flags d s = (Exited, s1)
            \<longrightarrow> startSync_loop config env flags (d # rest) acc s = (Exited, s1))
       \<and> (flag_sync flags
            \<and> startSync config env flags
                 (if flag_portforwarding flags then startPortForwarding config env s else s) = (Exited, s2)
            \<longrightarrow> Run_sessions config env flags s = (Exited, s2))
       \<and> ((pf_ResourceType pf = None \<or> pf_ResourceType pf = Some ''pod'')
            \<and> pf_LabelSelector pf \<noteq> []
            \<and> GetFirstRunningPod env (Join (selector_labels (pf_LabelSelector pf)) '', '')
                 (target_namespace config (pf_Namespace pf)) = (Some fpod, None)
            \<and> \<not> forwarding_ready env fpod (map port_pair (pf_PortMappings pf))
            \<longrightarrow> startPortForwarding_step config env pf s =
                  emit [CallForwardPorts fpod (map port_pair (pf_PortMappings pf)),
                        Log ErrorLevel ''Timeout waiting for port forwarding to start''] s
                \<and> startPortForwarding_loop config env (pf # pfs) s =
                    startPortForwarding_loop config env pfs
                      (emit [CallForwardPorts fpod (map port_pair (pf_PortMappings pf)),
                             Log ErrorLevel ''Timeout waiting for port forwarding to start''] s))
       \<and> (\<not> flag_sync flags
            \<longrightarrow> Run_sessions config env flags s =
                  (Returned (),
                   emit [CallEnterTerminal (cmd_pod s) (flag_container flags)]
                     (if flag_portforwarding flags then startPortForwarding config env s else s)))
       \<and> (flag_sync flags
            \<and> startSync config env flags
                 (if flag_portforwarding flags then startPortForwarding config env s else s)
                 = (Returned syncConfigs, s3)
            \<longrightarrow> Run_sessions config env flags s =
                  (Returned (),
                   emit (CallEnterTerminal (cmd_pod s3) (flag_container flags) # map CallSyncStop syncConfigs) s3))"
proof -
  have a: "SyncConfig_Start env (new_SyncConfig flags d p pod c) = Some err
            \<Longrightarrow> start_session env flags d p pod c s =
                  (Exited, emit [CallSyncStart (new_SyncConfig flags d p pod c),
                                 Log FatalLevel ''Sync error: %s''] s)"
    by (simp add: start_session_def Let_def fatal_def emit_def)
  have b: "startSync_step config env flags d s = (Exited, s1)
            \<Longrightarrow> startSync_loop config env flags (d # rest) acc s = (Exited, s1)"
    by simp
  have c: "flag_sync flags \<Longrightarrow> startSync config env flags
                 (if flag_portforwarding flags then startPortForwarding config env s else s) = (Exited, s2)
            \<Longrightarrow> Run_sessions config env flags s = (Exited, s2)"
    by (simp add: Run_sessions_def Let_def)
  have d: "startPortForwarding_step config env pf s =
                  emit [CallForwardPorts fpod (map port_pair (pf_PortMappings pf)),
                        Log ErrorLevel ''Timeout waiting for port forwarding to start''] s"
    if "pf_ResourceType pf = None \<or> pf_ResourceType pf = Some ''pod''"
       "pf_LabelSelector pf \<noteq> []"
       "GetFirstRunningPod env (Join (selector_labels (pf_LabelSelector pf)) '', '')
                 (target_namespace config (pf_Namespace pf)) = (Some fpod, None)"
       "\<not> forwarding_ready env fpod (map port_pair (pf_PortMappings pf))"
    using that by (auto simp: startPortForwarding_step_def forward_to_pod_def Let_def emit_def)
  have e: "\<not> flag_sync flags
            \<Longrightarrow> Run_sessions config env flags s =
                  (Returned (),
                   emit [CallEnterTerminal (cmd_pod s) (flag_container flags)]
                     (if flag_portforwarding flags then startPortForwarding config env s else s))"
    by (simp add: Run_sessions_def Let_def startPortForwarding_def startPortForwarding_loop_cmd_pod)
  have f: "flag_sync flags \<Longrightarrow> startSync config env flags
                 (if flag_portforwarding flags then startPortForwarding config env s else s)
                 = (Returned syncConfigs, s3)
            \<Longrightarrow> Run_sessions config env flags s =
                  (Returned (),
                   emit (CallEnterTerminal (cmd_pod s3) (flag_container flags) # map CallSyncStop syncConfigs) s3)"
    by (simp add: Run_sessions_def Let_def)
  have g: "fst (startSync_step config env flags d s) = Exited
             \<and> fst (startSync_loop config env flags (d # rest) acc s) = Exited"
    if "CallSyncStart session \<in> set (new_events s (snd (startSync_step config env flags d s)))"
       "SyncConfig_Start env session = Some failure"
  proof -
    from that have "fst (startSync_step config env flags d s) = Exited"
      by (rule startSync_step_start_failed)
    then show ?thesis
      by (cases "startSync_step config env flags d s") simp
  qed
  from a b c d e f g show ?thesis by simp
qed

lemma broken_step:
  "startSync_step forward_config broken_env demo_flags sync_web idle_state =
     (Exited,
      emit [CallSyncStart (new_SyncConfig demo_flags sync_web ''/work/src'' web_pod \<lparr>Container_Name = ''app''\<rparr>),
            Log FatalLevel ''Sync error: %s''] idle_state)"
  by (simp add: startSync_step_def sync_on_pod_def start_session_def fatal_def emit_def Let_def
      broken_env_def demo_env_def sync_web_def web_pod_def selector_labels_def)

theorem sync_failure_is_fatal_forward_timeout_is_not_witness:
  "CallSyncStart (new_SyncConfig demo_flags sync_web ''/work/src'' web_pod \<lparr>Container_Name = ''app''\<rparr>)
     \<in> set (new_events idle_state (snd (startSync_step forward_config broken_env demo_flags sync_web idle_state)))
   \<and> fst (startSync_loop forward_config broken_env demo_flags [sync_web, sync_db] [] idle_state) = Exited
   \<and> SyncConfig_Start broken_env
      (new_SyncConfig demo_flags sync_web ''/work/src'' web_pod \<lparr>Container_Name = ''app''\<rparr>)
     = Some ''exec failed''
   \<and> start_session broken_env demo_flags sync_web ''/work/src'' web_pod \<lparr>Container_Name = ''app''\<rparr> idle_state =
       (Exited,
        emit [CallSyncStart (new_SyncConfig demo_flags sync_web ''/work/src'' web_pod \<lparr>Container_Name = ''app''\<rparr>),
              Log FatalLevel ''Sync error: %s''] idle_state)
   \<and> pf_ResourceType pf_web = None
   \<and> pf_LabelSelector pf_web \<noteq> []
   \<and> GetFirstRunningPod slow_env (Join (selector_labels (pf_LabelSelector pf_web)) '', '')
        (target_namespace forward_config (pf_Namespace pf_web)) = (Some web_pod, None)
   \<and> \<not> forwarding_ready slow_env web_pod (map port_pair (pf_PortMappings pf_web))
   \<and> startPortForwarding_loop forward_config slow_env [pf_web, pf_other] idle_state =
       startPortForwarding_loop forward_config slow_env [pf_other]
         (emit [CallForwardPorts web_pod (map port_pair (pf_PortMappings pf_web)),
                Log ErrorLevel ''Timeout waiting for port forwarding to start''] idle_state)
   \<and> \<not> flag_sync nosync_flags
   \<and> Run_sessions forward_config slow_env nosync_flags idle_state =
       (Returned (),
        emit [CallForwardPorts web_pod [''8080:80''],
              Log ErrorLevel ''Timeout waiting for port forwarding to start'',
              CallEnterTerminal (Some web_pod) []] idle_state)"
proof -
  have h1: "SyncConfig_Start broken_env
      (new_SyncConfig demo_flags sync_web ''/work/src'' web_pod \<lparr>Container_Name = ''app''\<rparr>)
     = Some ''exec failed''"
    by (simp add: broken_env_def)
  have h2: "pf_ResourceType pf_web = None" by (simp add: pf_web_def)
  have h3: "pf_LabelSelector pf_web \<noteq> []" by (simp add: pf_web_def)
  have h4: "GetFirstRunningPod slow_env (Join (selector_labels (pf_LabelSelector pf_web)) '', '')
        (target_namespace forward_config (pf_Namespace pf_web)) = (Some web_pod, None)"
    by (simp add: slow_env_def demo_env_def pf_web_def selector_labels_def)
  have h5: "\<not> forwarding_ready slow_env web_pod (map port_pair (pf_PortMappings pf_web))"
    by (simp add: slow_env_def)
  have h6: "\<not> flag_sync nosync_flags" by (simp add: nosync_flags_def)
  note fact = sync_failure_is_fatal_forward_timeout_is_not
  have h0: "CallSyncStart (new_SyncConfig demo_flags sync_web ''/work/src'' web_pod \<lparr>Container_Name = ''app''\<rparr>)
     \<in> set (new_events idle_state (snd (startSync_step forward_config broken_env demo_flags sync_web idle_state)))"
    unfolding broken_step by (simp add: new_events_def emit_def idle_state_def)
  from fact [where env = broken_env and config = forward_config and flags = demo_flags and d = sync_web
               and s = idle_state and rest = "[sync_db]" and acc = "[]" and failure = "''exec failed''"
               and session = "new_SyncConfig demo_flags sync_web ''/work/src'' web_pod \<lparr>Container_Name = ''app''\<rparr>"]
       h0 h1
  have c0: "fst (startSync_loop forward_config broken_env demo_flags [sync_web, sync_db] [] idle_state) = Exited"
    by blast
  from fact [where env = broken_env and flags = demo_flags and d = sync_web and p = "''/work/src''"
               and pod = web_pod and c = "\<lparr>Container_Name = ''app''\<rparr>"
               and err = "''exec failed''" and s = idle_state] h1
  have c1: "start_session broken_env demo_flags sync_web ''/work/src'' web_pod \<lparr>Container_Name = ''app''\<rparr> idle_state =
       (Exited,
        emit [CallSyncStart (new_SyncConfig demo_flags sync_web ''/work/src'' web_pod \<lparr>Container_Name = ''app''\<rparr>),
              Log FatalLevel ''Sync error: %s''] idle_state)"
    by blast
  from fact [where env = slow_env and config = forward_config and pf = pf_web and fpod = web_pod
               and s = idle_state and pfs = "[pf_other]"] h2 h3 h4 h5
  have c2: "startPortForwarding_loop forward_config slow_env [pf_web, pf_other] idle_state =
       startPortForwarding_loop forward_config slow_env [pf_other]
         (emit [CallForwardPorts web_pod (map port_pair (pf_PortMappings pf_web)),
                Log ErrorLevel ''Timeout waiting for port forwarding to start''] idle_state)"
    by blast
  from fact [where env = slow_env and config = forward_config and flags = nosync_flags
               and s = idle_state] h6
  have "Run_sessions forward_config slow_env nosync_flags idle_state =
                  (Returned (),
                   emit [CallEnterTerminal (cmd_pod idle_state) (flag_container nosync_flags)]
                     (if flag_portforwarding nosync_flags
                      then startPortForwarding forward_config slow_env idle_state else idle_state))"
    by blast
  then have c3: "Run_sessions forward_config slow_env nosync_flags idle_state =
       (Returned (),
        emit [CallForwardPorts web_pod [''8080:80''],
              Log ErrorLevel ''Timeout waiting for port forwarding to start'',
              CallEnterTerminal (Some web_pod) []] idle_state)"
    by (simp add: nosync_flags_def demo_flags_def startPortForwarding_def forward_config_def
        demo_config_def startPortForwarding_step_def forward_to_pod_def pf_web_def slow_env_def
        demo_env_def selector_labels_def target_namespace_def emit_def idle_state_def Let_def
        port_pair_8080)
  from h0 c0 h1 c1 h2 h3 h4 h5 c2 h6 c3 show ?thesis by blast
qed

text \<open>
  C5, as claimed: a declaration whose selector matches no running pod is skipped with a
  warning. On a cluster where the lookup finds no pod, \<^verbatim>\<open>startSync\<close> and
  \<^verbatim>\<open>startPortForwarding\<close> return with not one event added: nothing is logged.
\<close>

theorem unmatched_selector_warning_counterexample:
  "GetFirstRunningPod demo_env (Join (selector_labels (sync_LabelSelector sync_other)) '', '')
      (target_namespace other_config (sync_Namespace sync_other)) = (None, None)
   \<and> GetFirstRunningPod demo_env (Join (selector_labels (pf_LabelSelector pf_other)) '', '')
      (target_namespace other_config (pf_Namespace pf_other)) = (None, None)
   \<and> startSync other_config demo_env demo_flags idle_state = (Returned [], idle_state)
   \<and> startPortForwarding other_config demo_env idle_state = idle_state
   \<and> events idle_state = []"
  by (simp add: startSync_def startSync_step_def startPortForwarding_def startPortForwarding_step_def
      other_config_def demo_config_def sync_other_def sync_web_def pf_other_def pf_web_def
      demo_env_def selector_labels_def target_namespace_def idle_state_def)

lemma start_session_pod:
  "start_session env flags d p pod c s = (Returned (Some session), s') \<Longrightarrow> Session_Pod session = pod"
  by (auto simp: start_session_def Let_def fatal_def new_SyncConfig_def split: option.splits)

lemma sync_on_pod_pod:
  "sync_on_pod env flags d p pod s = (Returned (Some session), s') \<Longrightarrow> Session_Pod session = pod"
  by (auto simp: sync_on_pod_def split: if_splits list.splits option.splits dest: start_session_pod)

lemma sync_on_pod_started_pod:
  assumes "CallSyncStart session \<in> set (new_events s (snd (sync_on_pod env flags d p pod s)))"
  shows "Session_Pod session = pod"
proof -
  obtain r s1 where st: "sync_on_pod env flags d p pod s = (r, s1)"
    by (cases "sync_on_pod env flags d p pod s")
  have "(\<exists>l m. new_events s s1 = [Log l m]) \<or> new_events s s1 = []
        \<or> (\<exists>c. start_session env flags d p pod c s = (r, s1))"
    using st
    by (auto simp: sync_on_pod_def emit_def new_events_def
             split: option.splits if_splits list.splits)
  then consider (quiet) "\<forall>x. CallSyncStart x \<notin> set (new_events s s1)"
    | (started) c where "start_session env flags d p pod c s = (r, s1)"
    by auto
  then show ?thesis
  proof cases
    case quiet
    with assms st show ?thesis by simp
  next
    case started
    from start_session_events [OF started] assms st
    have "session = new_SyncConfig flags d p pod c" by auto
    then show ?thesis by (simp add: new_SyncConfig_def)
  qed
qed

text \<open>
  C5, amended. A sync or port-forward declaration whose pod lookup succeeds and yields no
  pod is skipped silently: the state, log included, is unchanged, no session is created,
  and the loop goes on. A declaration whose lookup yields a pod resolves to that pod: the
  rest of the iteration works on it, every sync session the iteration starts or returns
  is bound to it, and the port forwarding of a pod declaration is started on it.
\<close>

theorem unmatched_selector_is_skipped_silently:
  shows "(filepath_Abs env (sync_LocalSubPath d) = Inr p
            \<and> GetFirstRunningPod env (Join (selector_labels (sync_LabelSelector d)) '', '')
                 (target_namespace config (sync_Namespace d)) = (None, None)
          \<longrightarrow> startSync_step config env flags d s = (Returned None, s)
              \<and> startSync_loop config env flags (d # rest) acc s =
                  startSync_loop config env flags rest acc s)
       \<and> (GetFirstRunningPod env (Join (selector_labels (pf_LabelSelector pf)) '', '')
                 (target_namespace config (pf_Namespace pf)) = (None, None)
            \<and> (pf_ResourceType pf = None \<or> pf_ResourceType pf = Some ''pod'')
          \<longrightarrow> startPortForwarding_step config env pf s = s
              \<and> startPortForwarding_loop config env (pf # pfs) s =
                  startPortForwarding_loop config env pfs s)
       \<and> (filepath_Abs env (sync_LocalSubPath d) = Inr p
            \<and> GetFirstRunningPod env (Join (selector_labels (sync_LabelSelector d)) '', '')
                 (target_namespace config (sync_Namespace d)) = (Some pod, None)
          \<longrightarrow> startSync_step config env flags d s = sync_on_pod env flags d p pod s
              \<and> (\<forall>session s'. startSync_step config env flags d s = (Returned (Some session), s')
                    \<longrightarrow> Session_Pod session = pod)
              \<and> (\<forall>session. CallSyncStart session
                       \<in> set (new_events s (snd (startSync_step config env flags d s)))
                    \<longrightarrow> Session_Pod session = pod))
       \<and> (GetFirstRunningPod env (Join (selector_labels (pf_LabelSelector pf)) '', '')
                 (target_namespace config (pf_Namespace pf)) = (Some pod, None)
            \<and> (pf_ResourceType pf = None \<or> pf_ResourceType pf = Some ''pod'')
            \<and> pf_LabelSelector pf \<noteq> []
          \<longrightarrow> startPortForwarding_step config env pf s = forward_to_pod env pf pod s
              \<and> hd (new_events s (forward_to_pod env pf pod s))
                  = CallForwardPorts pod (map port_pair (pf_PortMappings pf)))"
proof -
  have a: "startSync_step config env flags d s = (Returned None, s)"
    if "filepath_Abs env (sync_LocalSubPath d) = Inr p"
       "GetFirstRunningPod env (Join (selector_labels (sync_LabelSelector d)) '', '')
                 (target_namespace config (sync_Namespace d)) = (None, None)"
    using that by (simp add: startSync_step_def)
  have b: "startPortForwarding_step config env pf s = s"
    if "GetFirstRunningPod env (Join (selector_labels (pf_LabelSelector pf)) '', '')
                 (target_namespace config (pf_Namespace pf)) = (None, None)"
       "pf_ResourceType pf = None \<or> pf_ResourceType pf = Some ''pod''"
    using that by (auto simp: startPortForwarding_step_def)
  have c: "startSync_step config env flags d s = sync_on_pod env flags d p pod s"
    if "filepath_Abs env (sync_LocalSubPath d) = Inr p"
       "GetFirstRunningPod env (Join (selector_labels (sync_LabelSelector d)) '', '')
                 (target_namespace config (sync_Namespace d)) = (Some pod, None)"
    using that by (simp add: startSync_step_def)
  have d: "startPortForwarding_step config env pf s = forward_to_pod env pf pod s"
    if "GetFirstRunningPod env (Join (selector_labels (pf_LabelSelector pf)) '', '')
                 (target_namespace config (pf_Namespace pf)) = (Some pod, None)"
       "pf_ResourceType pf = None \<or> pf_ResourceType pf = Some ''pod''"
       "pf_LabelSelector pf \<noteq> []"
    using that by (auto simp: startPortForwarding_step_def)
  have e: "hd (new_events s (forward_to_pod env pf pod s))
                  = CallForwardPorts pod (map port_pair (pf_PortMappings pf))"
    by (simp add: forward_to_pod_def Let_def emit_def new_events_def)
  from a b c d e show ?thesis
    by (auto dest: sync_on_pod_pod sync_on_pod_started_pod)
qed

theorem unmatched_selector_is_skipped_silently_witness:
  "filepath_Abs demo_env (sync_LocalSubPath sync_other) = Inr ''/work/src''
   \<and> GetFirstRunningPod demo_env (Join (selector_labels (sync_LabelSelector sync_other)) '', '')
        (target_namespace other_config (sync_Namespace sync_other)) = (None, None)
   \<and> startSync_loop other_config demo_env demo_flags [sync_other, sync_web] [] idle_state =
       startSync_loop other_config demo_env demo_flags [sync_web] [] idle_state
   \<and> GetFirstRunningPod demo_env (Join (selector_labels (pf_LabelSelector pf_other)) '', '')
        (target_namespace other_config (pf_Namespace pf_other)) = (None, None)
   \<and> pf_ResourceType pf_other = None
   \<and> startPortForwarding_step other_config demo_env pf_other idle_state = idle_state
   \<and> GetFirstRunningPod demo_env (Join (selector_labels (pf_LabelSelector pf_web)) '', '')
        (target_namespace other_config (pf_Namespace pf_web)) = (Some web_pod, None)
   \<and> pf_ResourceType pf_web = None
   \<and> pf_LabelSelector pf_web \<noteq> []
   \<and> startPortForwarding_step other_config demo_env pf_web idle_state =
       forward_to_pod demo_env pf_web web_pod idle_state"
proof -
  have h1: "filepath_Abs demo_env (sync_LocalSubPath sync_other) = Inr ''/work/src''"
    by (simp add: demo_env_def sync_other_def sync_web_def)
  have h2: "GetFirstRunningPod demo_env (Join (selector_labels (sync_LabelSelector sync_other)) '', '')
        (target_namespace other_config (sync_Namespace sync_other)) = (None, None)"
    by (simp add: demo_env_def sync_other_def sync_web_def selector_labels_def)
  have h3: "GetFirstRunningPod demo_env (Join (selector_labels (pf_LabelSelector pf_other)) '', '')
        (target_namespace other_config (pf_Namespace pf_other)) = (None, None)"
    by (simp add: demo_env_def pf_other_def pf_web_def selector_labels_def)
  have h4: "pf_ResourceType pf_other = None" by (simp add: pf_other_def pf_web_def)
  have h5: "GetFirstRunningPod demo_env (Join (selector_labels (pf_LabelSelector pf_web)) '', '')
        (target_namespace other_config (pf_Namespace pf_web)) = (Some web_pod, None)"
    by (simp add: demo_env_def pf_web_def selector_labels_def)
  have h6: "pf_ResourceType pf_web = None" by (simp add: pf_web_def)
  have h7: "pf_LabelSelector pf_web \<noteq> []" by (simp add: pf_web_def)
  note fact = unmatched_selector_is_skipped_silently
  from fact [where env = demo_env and config = other_config and d = sync_other and p = "''/work/src''"
               and flags = demo_flags and s = idle_state and rest = "[sync_web]" and acc = "[]"] h1 h2
  have c1: "startSync_loop other_config demo_env demo_flags [sync_other, sync_web] [] idle_state =
       startSync_loop other_config demo_env demo_flags [sync_web] [] idle_state"
    by blast
  from fact [where env = demo_env and config = other_config and pf = pf_other and s = idle_state] h3 h4
  have c2: "startPortForwarding_step other_config demo_env pf_other idle_state = idle_state"
    by blast
  from fact [where env = demo_env and config = other_config and pf = pf_web and s = idle_state
               and pod = web_pod] h5 h6 h7
  have c3: "startPortForwarding_step other_config demo_env pf_web idle_state =
       forward_to_pod demo_env pf_web web_pod idle_state"
    by blast
  from h1 h2 c1 h3 h4 c2 h5 h6 h7 c3 show ?thesis by blast
qed

section \<open>Properties of the remove command\<close>

text \<open>
  C8. Invoked with no selector, no path or port argument and the remove-all flag off,
  \<^verbatim>\<open>RunRemoveSync\<close> and \<^verbatim>\<open>RunRemovePort\<close> log the error, print the help and return:
  \<^verbatim>\<open>SaveConfig\<close> is not called, and neither the loaded configuration nor the
  configuration file changes.
\<close>

theorem remove_without_flags_changes_nothing:
  assumes "parseSelectors env (syncFlags_Selector sflags) = Inr []"
    and "syncFlags_LocalPath sflags = []"
    and "syncFlags_ContainerPath sflags = []"
    and "syncFlags_RemoveAll sflags = False"
    and "parseSelectors env (portFlags_Selector pflags) = Inr []"
    and "portFlags_RemoveAll pflags = False"
    and "pargs = [] \<or> pargs = [[]]"
  shows "RunRemoveSync env sflags sargs s =
           (Returned (),
            remove_emit [Log ErrorLevel ''You have to specify at least one of the supported flags'', Help] s)
       \<and> RunRemovePort env pflags pargs s =
           (Returned (),
            remove_emit [Log ErrorLevel ''You have to specify at least one of the supported flags'', Help] s)
       \<and> config_file (remove_emit [Log ErrorLevel ''You have to specify at least one of the supported flags'', Help] s)
           = config_file s
       \<and> loaded_config (remove_emit [Log ErrorLevel ''You have to specify at least one of the supported flags'', Help] s)
           = loaded_config s
       \<and> CallSaveConfig \<notin> set (drop (length (remove_events s))
             (remove_events (remove_emit [Log ErrorLevel ''You have to specify at least one of the supported flags'', Help] s)))"
  using assms by (auto simp: RunRemoveSync_def RunRemovePort_def remove_emit_def)

theorem remove_without_flags_changes_nothing_witness:
  "parseSelectors plain_remove_env (syncFlags_Selector no_sync_flags) = Inr []
   \<and> syncFlags_LocalPath no_sync_flags = []
   \<and> syncFlags_ContainerPath no_sync_flags = []
   \<and> syncFlags_RemoveAll no_sync_flags = False
   \<and> parseSelectors plain_remove_env (portFlags_Selector no_port_flags) = Inr []
   \<and> portFlags_RemoveAll no_port_flags = False
   \<and> RunRemoveSync plain_remove_env no_sync_flags [] listed_state =
        (Returned (),
         \<lparr>loaded_config = listed_config, config_file = Some listed_config,
          remove_events = [Log ErrorLevel ''You have to specify at least one of the supported flags'', Help]\<rparr>)
   \<and> RunRemovePort plain_remove_env no_port_flags [] listed_state =
        (Returned (),
         \<lparr>loaded_config = listed_config, config_file = Some listed_config,
          remove_events = [Log ErrorLevel ''You have to specify at least one of the supported flags'', Help]\<rparr>)"
proof -
  have h1: "parseSelectors plain_remove_env (syncFlags_Selector no_sync_flags) = Inr []"
    by (simp add: plain_remove_env_def no_sync_flags_def)
  have h2: "syncFlags_LocalPath no_sync_flags = []" by (simp add: no_sync_flags_def)
  have h3: "syncFlags_ContainerPath no_sync_flags = []" by (simp add: no_sync_flags_def)
  have h4: "syncFlags_RemoveAll no_sync_flags = False" by (simp add: no_sync_flags_def)
  have h5: "parseSelectors plain_remove_env (portFlags_Selector no_port_flags) = Inr []"
    by (simp add: plain_remove_env_def no_port_flags_def)
  have h6: "portFlags_RemoveAll no_port_flags = False" by (simp add: no_port_flags_def)
  have h7: "([]::string list) = [] \<or> ([]::string list) = [[]]" by simp
  from remove_without_flags_changes_nothing [OF h1 h2 h3 h4 h5 h6 h7, of "[]" listed_state]
  have "RunRemoveSync plain_remove_env no_sync_flags [] listed_state =
        (Returned (),
         \<lparr>loaded_config = listed_config, config_file = Some listed_config,
          remove_events = [Log ErrorLevel ''You have to specify at least one of the supported flags'', Help]\<rparr>)
   \<and> RunRemovePort plain_remove_env no_port_flags [] listed_state =
        (Returned (),
         \<lparr>loaded_config = listed_config, config_file = Some listed_config,
          remove_events = [Log ErrorLevel ''You have to specify at least one of the supported flags'', Help]\<rparr>)"
    by (simp add: remove_emit_def listed_state_def)
  with h1 h2 h3 h4 h5 h6 show ?thesis by blast
qed

lemma remaining_ports_nonempty:
  "v \<in> set (remaining_ports env flags m ports vs) \<Longrightarrow> pf_PortMappings v \<noteq> []"
  by (induction vs) (auto split: if_splits)

lemma remaining_ports_origin:
  "v \<in> set (remaining_ports env flags m ports vs) \<Longrightarrow>
     \<exists>u \<in> set vs. v = u\<lparr>pf_PortMappings := remaining_mappings ports (pf_PortMappings u)\<rparr>
        \<and> remaining_mappings ports (pf_PortMappings u) \<noteq> []"
  by (induction vs) (auto split: if_splits)

lemma RunRemovePort_rewrites:
  assumes "parseSelectors env (portFlags_Selector flags) = Inr m"
    and "length m \<noteq> 0 \<or> portFlags_RemoveAll flags \<or> (\<exists>a. args = [a] \<and> a \<noteq> [])"
  shows "Ports (loaded_config (snd (RunRemovePort env flags args s))) =
           (case Ports (loaded_config s) of
              None \<Rightarrow> None
            | Some old \<Rightarrow>
                Some (remaining_ports env flags m
                        (Split (case args of [a] \<Rightarrow> a | other \<Rightarrow> []) CHR '','') old))"
proof -
  have passes: "\<not> (length m = 0 \<and> portFlags_RemoveAll flags = False
                   \<and> (case args of [a] \<Rightarrow> a | other \<Rightarrow> []) = [])"
    using assms(2) by auto
  show ?thesis
  proof (cases "Ports (loaded_config s)")
    case None
    with assms(1) passes show ?thesis
      by (auto simp: RunRemovePort_def Let_def)
  next
    case (Some old)
    show ?thesis
    proof (cases "old = []")
      case True
      with Some assms(1) passes show ?thesis
        by (auto simp: RunRemovePort_def Let_def)
    next
      case False
      with Some assms(1) passes show ?thesis
        by (auto simp: RunRemovePort_def Let_def save_config_def remove_emit_def split: option.splits)
    qed
  qed
qed

lemma RunRemovePort_keeps_or_rewrites:
  "Ports (loaded_config (snd (RunRemovePort env flags args s))) = Ports (loaded_config s)
   \<or> (\<exists>m ports old. Ports (loaded_config s) = Some old
         \<and> Ports (loaded_config (snd (RunRemovePort env flags args s)))
             = Some (remaining_ports env flags m ports old))"
  by (auto simp: RunRemovePort_def Let_def save_config_def remove_emit_def
           split: sum.splits option.splits list.splits)

text \<open>
  C10. Once \<^verbatim>\<open>RunRemovePort\<close> is past its flag check, every port-forwarding entry of the
  configuration it leaves has at least one port mapping, and is an entry of the old
  configuration with the requested ports taken out: an entry left with no mapping is
  dropped. In every run, a configuration whose entries all had a mapping keeps that
  property.
\<close>

theorem retained_port_entries_have_mappings:
  shows "(parseSelectors env (portFlags_Selector flags) = Inr m
            \<and> (length m \<noteq> 0 \<or> portFlags_RemoveAll flags \<or> (\<exists>a. args = [a] \<and> a \<noteq> []))
          \<longrightarrow> (\<forall>kept. Ports (loaded_config (snd (RunRemovePort env flags args s))) = Some kept
                \<longrightarrow> (\<forall>v \<in> set kept. pf_PortMappings v \<noteq> [])
                  \<and> (\<exists>old. Ports (loaded_config s) = Some old
                       \<and> (\<forall>v \<in> set kept. \<exists>u \<in> set old.
                            v = u\<lparr>pf_PortMappings :=
                                  remaining_mappings (Split (case args of [a] \<Rightarrow> a | other \<Rightarrow> []) CHR '','')
                                    (pf_PortMappings u)\<rparr>))))
       \<and> ((\<forall>old. Ports (loaded_config s) = Some old \<longrightarrow> (\<forall>v \<in> set old. pf_PortMappings v \<noteq> []))
          \<longrightarrow> (\<forall>kept. Ports (loaded_config (snd (RunRemovePort env flags args s))) = Some kept
                \<longrightarrow> (\<forall>v \<in> set kept. pf_PortMappings v \<noteq> [])))"
proof (intro conjI impI allI)
  fix kept
  assume h: "parseSelectors env (portFlags_Selector flags) = Inr m
            \<and> (length m \<noteq> 0 \<or> portFlags_RemoveAll flags \<or> (\<exists>a. args = [a] \<and> a \<noteq> []))"
    and k: "Ports (loaded_config (snd (RunRemovePort env flags args s))) = Some kept"
  from h have rw: "Ports (loaded_config (snd (RunRemovePort env flags args s))) =
           (case Ports (loaded_config s) of
              None \<Rightarrow> None
            | Some old \<Rightarrow>
                Some (remaining_ports env flags m
                        (Split (case args of [a] \<Rightarrow> a | other \<Rightarrow> []) CHR '','') old))"
    by (intro RunRemovePort_rewrites) auto
  with k obtain old where old: "Ports (loaded_config s) = Some old"
      and kept: "kept = remaining_ports env flags m
                        (Split (case args of [a] \<Rightarrow> a | other \<Rightarrow> []) CHR '','') old"
    by (auto split: option.splits)
  show "\<forall>v \<in> set kept. pf_PortMappings v \<noteq> []"
    unfolding kept by (auto dest: remaining_ports_nonempty)
  show "\<exists>old. Ports (loaded_config s) = Some old
                       \<and> (\<forall>v \<in> set kept. \<exists>u \<in> set old.
                            v = u\<lparr>pf_PortMappings :=
                                  remaining_mappings (Split (case args of [a] \<Rightarrow> a | other \<Rightarrow> []) CHR '','')
                                    (pf_PortMappings u)\<rparr>)"
    using old unfolding kept by (auto dest: remaining_ports_origin)
next
  fix kept
  assume inv: "\<forall>old. Ports (loaded_config s) = Some old \<longrightarrow> (\<forall>v \<in> set old. pf_PortMappings v \<noteq> [])"
    and k: "Ports (loaded_config (snd (RunRemovePort env flags args s))) = Some kept"
  from RunRemovePort_keeps_or_rewrites [of env flags args s]
  consider (same) "Ports (loaded_config s) = Some kept"
    | (rewritten) m ports old where "kept = remaining_ports env flags m ports old"
    using k by auto
  then show "\<forall>v \<in> set kept. pf_PortMappings v \<noteq> []"
  proof cases
    case same
    with inv show ?thesis by blast
  next
    case rewritten
    then show ?thesis by (auto dest: remaining_ports_nonempty)
  qed
qed

lemma Itoa_examples: "Itoa 3000 = ''3000''" "Itoa 9229 = ''9229''" "Itoa 8080 = ''8080''" "Itoa 80 = ''80''"
  by (simp_all add: Itoa_def digits.simps digit_char_def)

lemma TrimSpace_examples:
  "TrimSpace ''3000'' = ''3000''" "TrimSpace '' 9229'' = ''9229''" "TrimSpace ''8080 '' = ''8080''"
  by (simp_all add: TrimSpace_def trim_leading.simps space_runes_def)

lemma demo_remove_ports:
  "RunRemovePort plain_remove_env no_port_flags [''3000, 9229''] listed_state =
     (Returned (),
      \<lparr>loaded_config = \<lparr>Ports = Some [pf_web], Sync = Some [sync_web]\<rparr>,
       config_file = Some \<lparr>Ports = Some [pf_web], Sync = Some [sync_web]\<rparr>,
       remove_events = [CallSaveConfig]\<rparr>)"
  by (simp add: RunRemovePort_def plain_remove_env_def no_port_flags_def listed_state_def
      listed_config_def save_config_def remove_emit_def Let_def pf_web_def pf_two_def
      TrimSpace_examples Itoa_examples)

theorem retained_port_entries_have_mappings_witness:
  "parseSelectors plain_remove_env (portFlags_Selector no_port_flags) = Inr []
   \<and> Ports (loaded_config (snd (RunRemovePort plain_remove_env no_port_flags [''3000, 9229''] listed_state)))
       = Some [pf_web]
   \<and> pf_PortMappings pf_web \<noteq> []"
proof -
  have h1: "parseSelectors plain_remove_env (portFlags_Selector no_port_flags) = Inr []"
    by (simp add: plain_remove_env_def no_port_flags_def)
  have h2: "length ([] :: selector_map) \<noteq> 0 \<or> portFlags_RemoveAll no_port_flags
              \<or> (\<exists>a. [''3000, 9229''] = [a] \<and> a \<noteq> [])"
    by simp
  have run: "Ports (loaded_config (snd (RunRemovePort plain_remove_env no_port_flags [''3000, 9229''] listed_state)))
       = Some [pf_web]"
    by (simp add: demo_remove_ports)
  from retained_port_entries_have_mappings
         [of plain_remove_env no_port_flags "[]" "[''3000, 9229'']" listed_state] h1 h2 run
  have "\<forall>v \<in> set [pf_web]. pf_PortMappings v \<noteq> []" by blast
  then have "pf_PortMappings pf_web \<noteq> []" by simp
  with h1 run show ?thesis by blast
qed

end
